theory Spec2Isabelle
  imports Main "HOL-Library.Multiset" "HOL-Library.Product_Lexorder"
begin

section \<open>Values shared by the handlers\<close>

text \<open>
  The attendance enumeration of both backends (\<^verbatim>\<open>class AttendanceStatus(str, enum.Enum)\<close>),
  its \<^verbatim>\<open>.value\<close>, and the conversion of a submitted string into a member.
\<close>

datatype AttendanceStatus = PRESENT | ABSENT

definition status_value :: "AttendanceStatus \<Rightarrow> string" where
  "status_value st = (case st of PRESENT \<Rightarrow> ''Present'' | ABSENT \<Rightarrow> ''Absent'')"

definition AttendanceStatus_of :: "string \<Rightarrow> AttendanceStatus option" where
  "AttendanceStatus_of v =
     (if v = ''Present'' then Some PRESENT
      else if v = ''Absent'' then Some ABSENT
      else None)"

text \<open>
  A calendar date is the triple (year, month, day); Python compares dates as these triples,
  which is the lexicographic order on the product.
\<close>

type_synonym date = "nat \<times> nat \<times> nat"

text \<open>
  What a request can end with. \<open>HTTPException\<close> is raised by the handlers themselves with a
  status code and a detail. \<open>ValidationError\<close> is what the framework raises when a request
  model rejects its input. \<open>ValueError\<close>, \<open>DuplicateKeyError\<close> and \<open>TypeError\<close> are
  exceptions that no handler catches.
\<close>

datatype error =
    HTTPException nat string
  | ValidationError
  | ValueError
  | DuplicateKeyError
  | TypeError

definition http_status :: "error \<Rightarrow> nat" where
  "http_status e =
     (case e of
        HTTPException code detail \<Rightarrow> code
      | ValidationError \<Rightarrow> 422
      | ValueError \<Rightarrow> 500
      | DuplicateKeyError \<Rightarrow> 500
      | TypeError \<Rightarrow> 500)"

definition is_ConflictError :: "error \<Rightarrow> bool" where
  "is_ConflictError e = (case e of HTTPException code detail \<Rightarrow> code = 400 | _ \<Rightarrow> False)"

definition is_NotFoundError :: "error \<Rightarrow> bool" where
  "is_NotFoundError e = (case e of HTTPException code detail \<Rightarrow> code = 404 | _ \<Rightarrow> False)"

section \<open>Request models\<close>

record EmployeeCreate =
  employee_id :: string
  full_name :: string
  email :: string
  department :: string

record AttendanceCreate =
  ac_employee_id :: string
  ac_date :: date
  ac_status :: AttendanceStatus

record raw_attendance =
  raw_employee_id :: string
  raw_date :: date
  raw_status :: string

record raw_employee =
  r_employee_id :: string
  r_full_name :: string
  r_email :: string
  r_department :: string

text \<open>
  \<^verbatim>\<open>str.strip()\<close> removes leading and trailing whitespace. A character of a string is a
  code point below 256. The whitespace characters among these are tab, line feed, vertical
  tab, form feed, carriage return, the four separators 0x1C to 0x1F, the space, the next-line
  character 0x85 and the no-break space 0xA0.
\<close>

definition isspace :: "char \<Rightarrow> bool" where
  "isspace c =
     (c \<in> set [CHR 0x09, CHR 0x0A, CHR 0x0B, CHR 0x0C, CHR 0x0D,
                CHR 0x1C, CHR 0x1D, CHR 0x1E, CHR 0x1F, CHR '' '',
                CHR 0x85, CHR 0xA0])"

definition strip :: "string \<Rightarrow> string" where
  "strip v = rev (dropWhile isspace (rev (dropWhile isspace v)))"

text \<open>
  \<^verbatim>\<open>Field(..., min_length=lo, max_length=hi)\<close> on a string: the bounds are checked on the
  submitted string, before the field validator runs.
\<close>

definition str_field :: "nat \<Rightarrow> nat \<Rightarrow> string \<Rightarrow> error + string" where
  "str_field lo hi v = (if lo \<le> length v \<and> length v \<le> hi then Inr v else Inl ValidationError)"

text \<open>\<^verbatim>\<open>EmployeeCreate.no_empty_strings\<close>.\<close>

definition no_empty_strings :: "string \<Rightarrow> error + string" where
  "no_empty_strings v = (if strip v = [] then Inl ValueError else Inr (strip v))"

definition checked_str :: "nat \<Rightarrow> nat \<Rightarrow> string \<Rightarrow> error + string" where
  "checked_str lo hi v =
     (case str_field lo hi v of
        Inl e \<Rightarrow> Inl e
      | Inr w \<Rightarrow> (case no_empty_strings w of Inl e \<Rightarrow> Inl ValidationError | Inr u \<Rightarrow> Inr u))"

text \<open>
  Building \<^verbatim>\<open>EmployeeCreate\<close> from a payload. The e-mail type is the validation library's:
  \<open>EmailStr\<close> is a parameter that gives the accepted (normalised) address, or \<open>None\<close> for
  a string it rejects.
\<close>

definition EmployeeCreate_validate ::
  "(string \<Rightarrow> string option) \<Rightarrow> raw_employee \<Rightarrow> error + EmployeeCreate" where
  "EmployeeCreate_validate EmailStr raw =
     (case checked_str 1 50 (r_employee_id raw) of
        Inl e \<Rightarrow> Inl ValidationError
      | Inr eid \<Rightarrow>
     (case checked_str 1 100 (r_full_name raw) of
        Inl e \<Rightarrow> Inl ValidationError
      | Inr name \<Rightarrow>
     (case EmailStr (r_email raw) of
        None \<Rightarrow> Inl ValidationError
      | Some addr \<Rightarrow>
     (case checked_str 1 100 (r_department raw) of
        Inl e \<Rightarrow> Inl ValidationError
      | Inr dept \<Rightarrow>
          Inr \<lparr>employee_id = eid, full_name = name, email = addr, department = dept\<rparr>))))"

text \<open>
  \<^verbatim>\<open>AttendanceCreate.validate_date\<close>: the validator raises \<open>ValueError\<close> for a date after
  \<^verbatim>\<open>date.today()\<close>, which is the first argument here.
\<close>

definition validate_date :: "date \<Rightarrow> date \<Rightarrow> error + date" where
  "validate_date today v = (if v > today then Inl ValueError else Inr v)"

text \<open>
  Building the model from a payload: the status must name a member of the enumeration, and
  an error raised by a field validator is reported as the model's \<open>ValidationError\<close>.
\<close>

definition AttendanceCreate_validate :: "date \<Rightarrow> raw_attendance \<Rightarrow> error + AttendanceCreate" where
  "AttendanceCreate_validate today raw =
     (case validate_date today (raw_date raw) of
        Inl e \<Rightarrow> Inl ValidationError
      | Inr d \<Rightarrow>
          (case AttendanceStatus_of (raw_status raw) of
             None \<Rightarrow> Inl ValidationError
           | Some st \<Rightarrow>
               Inr \<lparr>ac_employee_id = raw_employee_id raw, ac_date = d, ac_status = st\<rparr>))"

section \<open>The document store\<close>

text \<open>
  The two collections in insertion order, which is the order \<^verbatim>\<open>find\<close> enumerates and
  \<^verbatim>\<open>find_one\<close> searches. The storage-assigned \<^verbatim>\<open>_id\<close> is opaque; it is drawn from
  a counter. The attendance collection keeps the status as the string the handler wrote and
  the date as the date whose midnight the handler wrote.
\<close>

record employee_doc = EmployeeCreate +
  emp_oid :: nat

record attendance_doc =
  att_oid :: nat
  att_employee_id :: string
  att_date :: date
  att_status :: string

record Attendance = attendance_doc +
  employee_name :: "string option"

record database =
  employees :: "employee_doc list"
  attendance :: "attendance_doc list"
  next_oid :: nat

definition db0 :: database where
  "db0 = \<lparr>employees = [], attendance = [], next_oid = 0\<rparr>"

text \<open>
  \<^verbatim>\<open>insert_one\<close> on the two collections. The indexes created at start-up are unique on
  \<^verbatim>\<open>employee_id\<close>, on \<^verbatim>\<open>email\<close>, and on the pair (\<^verbatim>\<open>employee_id\<close>, \<^verbatim>\<open>date\<close>); an
  insert that would break one raises \<open>DuplicateKeyError\<close> and stores nothing.
\<close>

definition employees_insert_one :: "database \<Rightarrow> EmployeeCreate \<Rightarrow> error + nat \<times> database" where
  "employees_insert_one db doc =
     (if find (\<lambda>d. employee_id d = employee_id doc) (employees db) \<noteq> None
         \<or> find (\<lambda>d. email d = email doc) (employees db) \<noteq> None
      then Inl DuplicateKeyError
      else Inr (next_oid db,
        db\<lparr>employees := employees db @
              [\<lparr>employee_id = employee_id doc, full_name = full_name doc,
                email = email doc, department = department doc, emp_oid = next_oid db\<rparr>],
           next_oid := Suc (next_oid db)\<rparr>))"

definition attendance_insert_one :: "database \<Rightarrow> string \<Rightarrow> date \<Rightarrow> string \<Rightarrow> error + nat \<times> database" where
  "attendance_insert_one db eid dt st =
     (if find (\<lambda>d. att_employee_id d = eid \<and> att_date d = dt) (attendance db) \<noteq> None
      then Inl DuplicateKeyError
      else Inr (next_oid db,
        db\<lparr>attendance := attendance db @
              [\<lparr>att_oid = next_oid db, att_employee_id = eid, att_date = dt, att_status = st\<rparr>],
           next_oid := Suc (next_oid db)\<rparr>))"

text \<open>\<^verbatim>\<open>update_one({"_id": oid}, {"$set": {"status": v}})\<close>: the first match is updated.\<close>

fun update_one_status :: "nat \<Rightarrow> string \<Rightarrow> attendance_doc list \<Rightarrow> attendance_doc list" where
  "update_one_status oid v [] = []"
| "update_one_status oid v (d # ds) =
     (if att_oid d = oid then d\<lparr>att_status := v\<rparr> # ds
      else d # update_one_status oid v ds)"

section \<open>Handlers of the document-store backend\<close>

text \<open>
  \<^verbatim>\<open>employee_helper\<close> and \<^verbatim>\<open>attendance_helper\<close> turn the \<^verbatim>\<open>_id\<close> into a string and the
  stored midnight into its date. The identifier is opaque here and the store keeps the date,
  so both leave a document as it is. \<open>with_employee_name\<close> is the assignment
  \<^verbatim>\<open>record["employee_name"] = ...\<close>.
\<close>

definition employee_helper :: "employee_doc \<Rightarrow> employee_doc" where
  "employee_helper emp = emp"

definition attendance_helper :: "Attendance \<Rightarrow> Attendance" where
  "attendance_helper att = att"

definition with_employee_name :: "attendance_doc \<Rightarrow> string option \<Rightarrow> Attendance" where
  "with_employee_name d n =
     \<lparr>att_oid = att_oid d, att_employee_id = att_employee_id d, att_date = att_date d,
      att_status = att_status d, employee_name = n\<rparr>"

text \<open>
  \<^verbatim>\<open>create_employee\<close>, \<^verbatim>\<open>get_employees\<close> and \<^verbatim>\<open>mark_attendance\<close>. A handler returns its
  result and the store it leaves. \<^verbatim>\<open>find_one\<close> is \<open>find\<close> on the collection; the helper
  applied to a document that \<^verbatim>\<open>find_one\<close> did not find raises \<open>TypeError\<close>.
\<close>

definition create_employee :: "database \<Rightarrow> EmployeeCreate \<Rightarrow> (error + employee_doc) \<times> database" where
  "create_employee db employee =
     (if find (\<lambda>d. employee_id d = employee_id employee) (employees db) \<noteq> None
      then (Inl (HTTPException 400 ''Employee ID already exists''), db)
      else if find (\<lambda>d. email d = email employee) (employees db) \<noteq> None
      then (Inl (HTTPException 400 ''Email already exists''), db)
      else
        (case employees_insert_one db employee of
           Inl e \<Rightarrow> (Inl e, db)
         | Inr (inserted_id, db') \<Rightarrow>
             (case find (\<lambda>d. emp_oid d = inserted_id) (employees db') of
                None \<Rightarrow> (Inl TypeError, db')
              | Some new_emp \<Rightarrow> (Inr (employee_helper new_emp), db'))))"

definition get_employees :: "database \<Rightarrow> employee_doc list" where
  "get_employees db = map employee_helper (employees db)"

definition mark_attendance :: "database \<Rightarrow> AttendanceCreate \<Rightarrow> (error + Attendance) \<times> database" where
  "mark_attendance db a =
     (case find (\<lambda>d. employee_id d = ac_employee_id a) (employees db) of
        None \<Rightarrow> (Inl (HTTPException 404 ''Employee not found''), db)
      | Some employee \<Rightarrow>
          (case find (\<lambda>d. att_employee_id d = ac_employee_id a \<and> att_date d = ac_date a)
                  (attendance db) of
             Some existing \<Rightarrow>
               (let db' = db\<lparr>attendance :=
                            update_one_status (att_oid existing) (status_value (ac_status a))
                              (attendance db)\<rparr>
                in (case find (\<lambda>d. att_oid d = att_oid existing) (attendance db') of
                      None \<Rightarrow> (Inl TypeError, db')
                    | Some updated \<Rightarrow>
                        (Inr (attendance_helper
                               (with_employee_name updated (Some (full_name employee)))), db')))
           | None \<Rightarrow>
               (case attendance_insert_one db (ac_employee_id a) (ac_date a)
                       (status_value (ac_status a)) of
                  Inl e \<Rightarrow> (Inl e, db)
                | Inr (inserted_id, db') \<Rightarrow>
                    (case find (\<lambda>d. att_oid d = inserted_id) (attendance db') of
                       None \<Rightarrow> (Inl TypeError, db')
                     | Some new_att \<Rightarrow>
                         (Inr (attendance_helper
                                (with_employee_name new_att (Some (full_name employee)))), db')))))"


text \<open>
  The route \<^verbatim>\<open>POST /api/employees\<close>: the framework builds the model from the body and
  calls the handler with it.
\<close>

definition post_employees ::
  "(string \<Rightarrow> string option) \<Rightarrow> database \<Rightarrow> raw_employee \<Rightarrow> (error + employee_doc) \<times> database" where
  "post_employees EmailStr db raw =
     (case EmployeeCreate_validate EmailStr raw of
        Inl e \<Rightarrow> (Inl e, db)
      | Inr employee \<Rightarrow> create_employee db employee)"

text \<open>
  The handler awaits the store three times: two look-ups, then the insert. Between the
  look-ups and the insert the store may serve other requests; \<open>other\<close> is what they do to
  it. With \<open>other\<close> the identity this is \<open>create_employee\<close>.
\<close>

definition create_employee_interleaved ::
  "database \<Rightarrow> (database \<Rightarrow> database) \<Rightarrow> EmployeeCreate \<Rightarrow> (error + employee_doc) \<times> database" where
  "create_employee_interleaved db other employee =
     (if find (\<lambda>d. employee_id d = employee_id employee) (employees db) \<noteq> None
      then (Inl (HTTPException 400 ''Employee ID already exists''), db)
      else if find (\<lambda>d. email d = email employee) (employees db) \<noteq> None
      then (Inl (HTTPException 400 ''Email already exists''), db)
      else
        (case employees_insert_one (other db) employee of
           Inl e \<Rightarrow> (Inl e, other db)
         | Inr (inserted_id, db') \<Rightarrow>
             (case find (\<lambda>d. emp_oid d = inserted_id) (employees db') of
                None \<Rightarrow> (Inl TypeError, db')
              | Some new_emp \<Rightarrow> (Inr (employee_helper new_emp), db'))))"

subsection \<open>Listing attendance\<close>

text \<open>
  \<^verbatim>\<open>datetime.strptime(s, "%Y-%m-%d")\<close>. The library turns the format into the regular
  expression
  \<^verbatim>\<open>(?P<Y>\d\d\d\d)-(?P<m>1[0-2]|0[1-9]|[1-9])-(?P<d>3[0-1]|[1-2]\d|0[1-9]|[1-9]| [1-9])\<close>,
  matches it at the start of the string, raises \<open>ValueError\<close> when nothing matches or when
  the match leaves text over, and raises \<open>ValueError\<close> again when the three numbers are
  not a date of the calendar. Each piece of the expression gives its matches in the order
  the library tries them, each with the text that is left.
\<close>

definition digit_val :: "char \<Rightarrow> nat" where
  "digit_val c =
     (case map_of [(CHR ''0'', 0), (CHR ''1'', 1), (CHR ''2'', 2), (CHR ''3'', 3), (CHR ''4'', 4),
                   (CHR ''5'', 5), (CHR ''6'', 6), (CHR ''7'', 7), (CHR ''8'', 8), (CHR ''9'', 9)] c of
        None \<Rightarrow> 0
      | Some n \<Rightarrow> n)"

definition re_chars1 :: "string \<Rightarrow> string \<Rightarrow> (nat \<times> string) list" where
  "re_chars1 A s =
     (case s of
        a # r \<Rightarrow> if a \<in> set A then [(digit_val a, r)] else []
      | [] \<Rightarrow> [])"

definition re_chars2 :: "string \<Rightarrow> string \<Rightarrow> string \<Rightarrow> (nat \<times> string) list" where
  "re_chars2 A B s =
     (case s of
        a # b # r \<Rightarrow> if a \<in> set A \<and> b \<in> set B then [(10 * digit_val a + digit_val b, r)] else []
      | _ \<Rightarrow> [])"

definition re_lit :: "char \<Rightarrow> string \<Rightarrow> string list" where
  "re_lit c s = (case s of a # r \<Rightarrow> if a = c then [r] else [] | [] \<Rightarrow> [])"

definition re_Y :: "string \<Rightarrow> (nat \<times> string) list" where
  "re_Y s =
     [(100 * hi + lo, r2). (hi, r1) \<leftarrow> re_chars2 ''0123456789'' ''0123456789'' s,
                           (lo, r2) \<leftarrow> re_chars2 ''0123456789'' ''0123456789'' r1]"

definition re_m :: "string \<Rightarrow> (nat \<times> string) list" where
  "re_m s = re_chars2 ''1'' ''012'' s @ re_chars2 ''0'' ''123456789'' s @ re_chars1 ''123456789'' s"

definition re_d :: "string \<Rightarrow> (nat \<times> string) list" where
  "re_d s =
     re_chars2 ''3'' ''01'' s @ re_chars2 ''12'' ''0123456789'' s @ re_chars2 ''0'' ''123456789'' s
     @ re_chars1 ''123456789'' s @ re_chars2 '' '' ''123456789'' s"

definition re_ymd :: "string \<Rightarrow> (date \<times> string) list" where
  "re_ymd s =
     [((y, m, d), r5). (y, r1) \<leftarrow> re_Y s, r2 \<leftarrow> re_lit CHR ''-'' r1, (m, r3) \<leftarrow> re_m r2,
                       r4 \<leftarrow> re_lit CHR ''-'' r3, (d, r5) \<leftarrow> re_d r4]"

definition is_leap :: "nat \<Rightarrow> bool" where
  "is_leap y = (y mod 4 = 0 \<and> (y mod 100 \<noteq> 0 \<or> y mod 400 = 0))"

definition days_in_month :: "nat \<Rightarrow> nat \<Rightarrow> nat" where
  "days_in_month y m =
     (if m = 2 then (if is_leap y then 29 else 28)
      else if m = 4 \<or> m = 6 \<or> m = 9 \<or> m = 11 then 30
      else 31)"

definition strptime :: "string \<Rightarrow> error + date" where
  "strptime data_string =
     (case re_ymd data_string of
        [] \<Rightarrow> Inl ValueError
      | ((y, m, d), rest) # others \<Rightarrow>
          if rest \<noteq> [] then Inl ValueError
          else if 1 \<le> y \<and> 1 \<le> m \<and> m \<le> 12 \<and> 1 \<le> d \<and> d \<le> days_in_month y m
          then Inr (y, m, d)
          else Inl ValueError)"

text \<open>
  The query a handler builds, and whether a stored document satisfies it: an exact match
  on \<^verbatim>\<open>employee_id\<close>, \<^verbatim>\<open>$gte\<close> and \<^verbatim>\<open>$lte\<close> on \<^verbatim>\<open>date\<close>, all three together.
\<close>

record query =
  q_employee_id :: "string option"
  q_gte :: "date option"
  q_lte :: "date option"

definition matches :: "query \<Rightarrow> attendance_doc \<Rightarrow> bool" where
  "matches q d =
     ((case q_employee_id q of None \<Rightarrow> True | Some e \<Rightarrow> att_employee_id d = e)
      \<and> (case q_gte q of None \<Rightarrow> True | Some lo \<Rightarrow> lo \<le> att_date d)
      \<and> (case q_lte q of None \<Rightarrow> True | Some hi \<Rightarrow> att_date d \<le> hi))"

text \<open>
  \<^verbatim>\<open>.sort("date", -1)\<close>: latest date first. The store does not say in which order it
  returns documents of one date; here they keep the order they were stored in.
\<close>

fun insert_desc :: "attendance_doc \<Rightarrow> attendance_doc list \<Rightarrow> attendance_doc list" where
  "insert_desc x [] = [x]"
| "insert_desc x (y # ys) =
     (if att_date y \<le> att_date x then x # y # ys else y # insert_desc x ys)"

definition sort_date_desc :: "attendance_doc list \<Rightarrow> attendance_doc list" where
  "sort_date_desc ds = foldr insert_desc ds []"

text \<open>
  \<^verbatim>\<open>if employee_id:\<close>, \<^verbatim>\<open>if date_from:\<close> and \<^verbatim>\<open>if date_to:\<close> hold for a parameter that
  is present and not the empty string; only then is the filter added, and only then is
  the date string parsed.
\<close>

definition given :: "string option \<Rightarrow> string option" where
  "given v = (case v of None \<Rightarrow> None | Some s \<Rightarrow> if s = [] then None else Some s)"

definition parse_bound :: "string option \<Rightarrow> error + date option" where
  "parse_bound v =
     (case given v of
        None \<Rightarrow> Inr None
      | Some s \<Rightarrow> (case strptime s of Inl e \<Rightarrow> Inl e | Inr d \<Rightarrow> Inr (Some d)))"

definition get_attendance ::
  "database \<Rightarrow> string option \<Rightarrow> string option \<Rightarrow> string option \<Rightarrow> error + Attendance list" where
  "get_attendance db emp_id date_from date_to =
     (case parse_bound date_from of
        Inl e \<Rightarrow> Inl e
      | Inr date_from_obj \<Rightarrow>
          (case parse_bound date_to of
             Inl e \<Rightarrow> Inl e
           | Inr date_to_obj \<Rightarrow>
               Inr (map (\<lambda>record.
                          attendance_helper
                            (with_employee_name record
                               (map_option full_name
                                  (find (\<lambda>d. employee_id d = att_employee_id record)
                                     (employees db)))))
                      (sort_date_desc
                         (filter (matches \<lparr>q_employee_id = given emp_id,
                                           q_gte = date_from_obj, q_lte = date_to_obj\<rparr>)
                            (attendance db))))))"

subsection \<open>Statistics\<close>

text \<open>
  The \<^verbatim>\<open>$group\<close> stage keyed by \<^verbatim>\<open>employee_id\<close>, read into the dictionary
  \<^verbatim>\<open>attendance_stats\<close>: per key, the number of documents whose status is the string
  \<^verbatim>\<open>Present\<close>, the number whose status is \<^verbatim>\<open>Absent\<close>, and the number of documents.
\<close>

record group_doc =
  g_total_present :: nat
  g_total_absent :: nat
  g_total_days :: nat

record AttendanceStats =
  stat_employee_id :: string
  stat_employee_name :: string
  total_present :: nat
  total_absent :: nat
  total_days :: nat

definition group_zero :: group_doc where
  "group_zero = \<lparr>g_total_present = 0, g_total_absent = 0, g_total_days = 0\<rparr>"

definition group_step :: "(string \<rightharpoonup> group_doc) \<Rightarrow> attendance_doc \<Rightarrow> (string \<rightharpoonup> group_doc)" where
  "group_step acc d =
     (let g = (case acc (att_employee_id d) of None \<Rightarrow> group_zero | Some g \<Rightarrow> g)
      in acc(att_employee_id d \<mapsto>
           \<lparr>g_total_present = g_total_present g + (if att_status d = ''Present'' then 1 else 0),
            g_total_absent = g_total_absent g + (if att_status d = ''Absent'' then 1 else 0),
            g_total_days = g_total_days g + 1\<rparr>))"

definition aggregate_group :: "attendance_doc list \<Rightarrow> (string \<rightharpoonup> group_doc)" where
  "aggregate_group docs = foldl group_step Map.empty docs"

definition get_attendance_stats :: "database \<Rightarrow> AttendanceStats list" where
  "get_attendance_stats db =
     (let attendance_stats = aggregate_group (attendance db)
      in map (\<lambda>employee.
                (let emp_stats = (case attendance_stats (employee_id employee) of
                                    None \<Rightarrow> group_zero
                                  | Some g \<Rightarrow> g)
                 in \<lparr>stat_employee_id = employee_id employee,
                     stat_employee_name = full_name employee,
                     total_present = g_total_present emp_stats,
                     total_absent = g_total_absent emp_stats,
                     total_days = g_total_days emp_stats\<rparr>))
           (employees db))"

section \<open>The relational backend\<close>

text \<open>
  The tables of the alternate backend: rows in primary-key order, the status column of the
  enumeration's type. Its statistics handler counts per employee, with two queries.
\<close>

record EmployeeDB =
  row_id :: nat
  row_employee_id :: string
  row_full_name :: string
  row_email :: string
  row_department :: string

record AttendanceDB =
  arow_id :: nat
  arow_employee_id :: string
  arow_date :: date
  arow_status :: AttendanceStatus

record tables =
  employees_table :: "EmployeeDB list"
  attendance_table :: "AttendanceDB list"

definition get_attendance_stats_sql :: "tables \<Rightarrow> AttendanceStats list" where
  "get_attendance_stats_sql db =
     map (\<lambda>emp.
            (let total_present =
                   length (filter (\<lambda>r. arow_employee_id r = row_employee_id emp
                                        \<and> arow_status r = PRESENT) (attendance_table db));
                 total_absent =
                   length (filter (\<lambda>r. arow_employee_id r = row_employee_id emp
                                        \<and> arow_status r = ABSENT) (attendance_table db))
             in \<lparr>stat_employee_id = row_employee_id emp,
                 stat_employee_name = row_full_name emp,
                 total_present = total_present,
                 total_absent = total_absent,
                 total_days = total_present + total_absent\<rparr>))
       (employees_table db)"

section \<open>Runs of the service and what the stores hold\<close>

text \<open>
  The requests that write, and the store after a sequence of them served one after the
  other from the empty store. The reading handlers return no store: they change nothing.
\<close>

datatype request = CreateEmployee EmployeeCreate | MarkAttendance AttendanceCreate

fun handle :: "database \<Rightarrow> request \<Rightarrow> database" where
  "handle db (CreateEmployee e) = snd (create_employee db e)"
| "handle db (MarkAttendance a) = snd (mark_attendance db a)"

definition run :: "request list \<Rightarrow> database" where
  "run reqs = foldl handle db0 reqs"

subsection \<open>Requests that overlap\<close>

text \<open>
  A handler is a coroutine: it gives up control at every \<^verbatim>\<open>await\<close>, and only there, so
  the calls of several requests on the store interleave while each single call on the store
  is atomic. A request in progress is the point it has reached, with the local variables it
  still needs: \<open>CE0\<close> to \<open>CE3\<close> stand before the four awaits of \<^verbatim>\<open>create_employee\<close>
  (look-up by \<^verbatim>\<open>employee_id\<close>, look-up by \<^verbatim>\<open>email\<close>, \<^verbatim>\<open>insert_one\<close>, look-up by
  \<^verbatim>\<open>_id\<close>); \<open>MA0\<close> to \<open>MA3\<close> stand before the awaits of \<^verbatim>\<open>mark_attendance\<close> (look-up of
  the employee, look-up of the existing record, then \<^verbatim>\<open>update_one\<close> or \<^verbatim>\<open>insert_one\<close>,
  look-up by \<^verbatim>\<open>_id\<close>). \<open>step\<close> runs a request up to its next await.
\<close>

datatype proc =
    CE0 EmployeeCreate
  | CE1 EmployeeCreate
  | CE2 EmployeeCreate
  | CE3 nat
  | CE_done "error + employee_doc"
  | MA0 AttendanceCreate
  | MA1 AttendanceCreate employee_doc
  | MA2_update AttendanceCreate employee_doc attendance_doc
  | MA2_insert AttendanceCreate employee_doc
  | MA3 employee_doc nat
  | MA_done "error + Attendance"

fun step :: "database \<Rightarrow> proc \<Rightarrow> proc \<times> database" where
  "step db (CE0 employee) =
     (if find (\<lambda>d. employee_id d = employee_id employee) (employees db) \<noteq> None
      then (CE_done (Inl (HTTPException 400 ''Employee ID already exists'')), db)
      else (CE1 employee, db))"
| "step db (CE1 employee) =
     (if find (\<lambda>d. email d = email employee) (employees db) \<noteq> None
      then (CE_done (Inl (HTTPException 400 ''Email already exists'')), db)
      else (CE2 employee, db))"
| "step db (CE2 employee) =
     (case employees_insert_one db employee of
        Inl e \<Rightarrow> (CE_done (Inl e), db)
      | Inr (inserted_id, db') \<Rightarrow> (CE3 inserted_id, db'))"
| "step db (CE3 inserted_id) =
     (case find (\<lambda>d. emp_oid d = inserted_id) (employees db) of
        None \<Rightarrow> (CE_done (Inl TypeError), db)
      | Some new_emp \<Rightarrow> (CE_done (Inr (employee_helper new_emp)), db))"
| "step db (CE_done r) = (CE_done r, db)"
| "step db (MA0 a) =
     (case find (\<lambda>d. employee_id d = ac_employee_id a) (employees db) of
        None \<Rightarrow> (MA_done (Inl (HTTPException 404 ''Employee not found'')), db)
      | Some employee \<Rightarrow> (MA1 a employee, db))"
| "step db (MA1 a employee) =
     (case find (\<lambda>d. att_employee_id d = ac_employee_id a \<and> att_date d = ac_date a)
             (attendance db) of
        Some existing \<Rightarrow> (MA2_update a employee existing, db)
      | None \<Rightarrow> (MA2_insert a employee, db))"
| "step db (MA2_update a employee existing) =
     (MA3 employee (att_oid existing),
      db\<lparr>attendance :=
           update_one_status (att_oid existing) (status_value (ac_status a)) (attendance db)\<rparr>)"
| "step db (MA2_insert a employee) =
     (case attendance_insert_one db (ac_employee_id a) (ac_date a) (status_value (ac_status a)) of
        Inl e \<Rightarrow> (MA_done (Inl e), db)
      | Inr (inserted_id, db') \<Rightarrow> (MA3 employee inserted_id, db'))"
| "step db (MA3 employee oid) =
     (case find (\<lambda>d. att_oid d = oid) (attendance db) of
        None \<Rightarrow> (MA_done (Inl TypeError), db)
      | Some doc \<Rightarrow>
          (MA_done (Inr (attendance_helper
                          (with_employee_name doc (Some (full_name employee))))), db))"
| "step db (MA_done r) = (MA_done r, db)"

text \<open>Running a request for a number of awaits with no other request in between.\<close>

fun steps :: "nat \<Rightarrow> database \<Rightarrow> proc \<Rightarrow> proc \<times> database" where
  "steps 0 db p = (p, db)"
| "steps (Suc n) db p = (case step db p of (p', db') \<Rightarrow> steps n db' p')"

fun start :: "request \<Rightarrow> proc" where
  "start (CreateEmployee e) = CE0 e"
| "start (MarkAttendance a) = MA0 a"

text \<open>
  What happens to the service: a request arrives, or the request in progress with the
  given number runs up to its next await. \<open>serve\<close> gives the store and the requests in
  progress after a sequence of such events from the empty store; every interleaving of
  requests is such a sequence. \<open>serial\<close> is the sequence in which each request runs to its
  end before the next one arrives.
\<close>

datatype event = Request request | Await nat

fun deliver :: "database \<times> proc list \<Rightarrow> event \<Rightarrow> database \<times> proc list" where
  "deliver (db, ps) (Request r) = (db, ps @ [start r])"
| "deliver (db, ps) (Await i) =
     (if i < length ps
      then (case step db (ps ! i) of (p', db') \<Rightarrow> (db', ps[i := p']))
      else (db, ps))"

definition serve :: "event list \<Rightarrow> database \<times> proc list" where
  "serve evs = foldl deliver (db0, []) evs"

fun serial :: "nat \<Rightarrow> request list \<Rightarrow> event list" where
  "serial n [] = []"
| "serial n (r # rs) = Request r # replicate 4 (Await n) @ serial (Suc n) rs"

definition att_key :: "attendance_doc \<Rightarrow> string \<times> date" where
  "att_key d = (att_employee_id d, att_date d)"

definition store_inv :: "database \<Rightarrow> bool" where
  "store_inv db =
     (distinct (map att_oid (attendance db))
      \<and> list_all (\<lambda>d. att_oid d < next_oid db) (attendance db)
      \<and> distinct (map att_key (attendance db))
      \<and> list_all (\<lambda>d. att_status d = ''Present'' \<or> att_status d = ''Absent'') (attendance db)
      \<and> distinct (map employee_id (employees db))
      \<and> distinct (map email (employees db)))"

text \<open>What the listing handler makes of one stored document.\<close>

definition resolve_name :: "database \<Rightarrow> attendance_doc \<Rightarrow> Attendance" where
  "resolve_name db record =
     with_employee_name record
       (map_option full_name (find (\<lambda>d. employee_id d = att_employee_id record) (employees db)))"

definition stored_doc :: "Attendance \<Rightarrow> attendance_doc" where
  "stored_doc r =
     \<lparr>att_oid = att_oid r, att_employee_id = att_employee_id r, att_date = att_date r,
      att_status = att_status r\<rparr>"

text \<open>The entry of the dictionary \<^verbatim>\<open>attendance_stats\<close> under a key, or the zero counts.\<close>

definition group_of :: "(string \<rightharpoonup> group_doc) \<Rightarrow> string \<Rightarrow> group_doc" where
  "group_of acc eid = (case acc eid of None \<Rightarrow> group_zero | Some g \<Rightarrow> g)"

text \<open>What a store holds, without the storage-assigned identifiers.\<close>

definition employee_content :: "employee_doc \<Rightarrow> string \<times> string \<times> string \<times> string" where
  "employee_content d = (employee_id d, full_name d, email d, department d)"

definition row_content :: "EmployeeDB \<Rightarrow> string \<times> string \<times> string \<times> string" where
  "row_content r = (row_employee_id r, row_full_name r, row_email r, row_department r)"

definition attendance_content :: "attendance_doc \<Rightarrow> string \<times> date \<times> string" where
  "attendance_content d = (att_employee_id d, att_date d, att_status d)"

definition arow_content :: "AttendanceDB \<Rightarrow> string \<times> date \<times> string" where
  "arow_content r = (arow_employee_id r, arow_date r, status_value (arow_status r))"

text \<open>
  The statistics entry of an employee, from what the stores hold: the contents of the
  attendance records as a multiset, and the content of the employee.
\<close>

definition stats_of_content ::
  "(string \<times> date \<times> string) multiset \<Rightarrow> string \<times> string \<times> string \<times> string \<Rightarrow> AttendanceStats" where
  "stats_of_content A c =
     \<lparr>stat_employee_id = fst c,
      stat_employee_name = fst (snd c),
      total_present = size {#a \<in># A. fst a = fst c \<and> snd (snd a) = ''Present''#},
      total_absent = size {#a \<in># A. fst a = fst c \<and> snd (snd a) = ''Absent''#},
      total_days = size {#a \<in># A. fst a = fst c#}\<rparr>"

subsection \<open>Example data\<close>

definition alice :: EmployeeCreate where
  "alice = \<lparr>employee_id = ''E1'', full_name = ''Alice'', email = ''a@x.com'', department = ''Eng''\<rparr>"

definition bob :: EmployeeCreate where
  "bob = \<lparr>employee_id = ''E2'', full_name = ''Bob'', email = ''b@x.com'', department = ''Ops''\<rparr>"

definition mark :: "string \<Rightarrow> date \<Rightarrow> AttendanceStatus \<Rightarrow> request" where
  "mark e d st = MarkAttendance \<lparr>ac_employee_id = e, ac_date = d, ac_status = st\<rparr>"

definition stats_db :: database where
  "stats_db =
     run [CreateEmployee alice, mark ''E1'' (2024, 1, 1) PRESENT, mark ''E1'' (2024, 1, 2) ABSENT,
          mark ''E1'' (2024, 1, 3) PRESENT, mark ''E1'' (2024, 1, 4) ABSENT,
          mark ''E1'' (2024, 1, 5) PRESENT, CreateEmployee bob]"

definition example_db :: database where
  "example_db =
     run [CreateEmployee alice, mark ''E1'' (2024, 1, 1) PRESENT, mark ''E1'' (2024, 1, 1) ABSENT,
          CreateEmployee bob, mark ''E2'' (2024, 1, 2) PRESENT, mark ''E1'' (2024, 1, 3) PRESENT]"


text \<open>An identifier of 51 characters: \<^verbatim>\<open>E1\<close> followed by 49 spaces.\<close>

definition padded_id :: string where
  "padded_id = ''E1'' @ replicate 49 (CHR '' '')"

text \<open>Tables that hold what \<open>example_db\<close> holds, in another order.\<close>

definition example_tables :: tables where
  "example_tables =
     \<lparr>employees_table =
        [\<lparr>row_id = 1, row_employee_id = ''E2'', row_full_name = ''Bob'', row_email = ''b@x.com'',
          row_department = ''Ops''\<rparr>,
         \<lparr>row_id = 2, row_employee_id = ''E1'', row_full_name = ''Alice'', row_email = ''a@x.com'',
          row_department = ''Eng''\<rparr>],
      attendance_table =
        [\<lparr>arow_id = 1, arow_employee_id = ''E1'', arow_date = (2024, 1, 3), arow_status = PRESENT\<rparr>,
         \<lparr>arow_id = 2, arow_employee_id = ''E1'', arow_date = (2024, 1, 1), arow_status = ABSENT\<rparr>,
         \<lparr>arow_id = 3, arow_employee_id = ''E2'', arow_date = (2024, 1, 2), arow_status = PRESENT\<rparr>]\<rparr>"

text \<open>A store in which the employee of one attendance document is gone.\<close>

definition orphan_db :: database where
  "orphan_db =
     \<lparr>employees =
        [\<lparr>employee_id = ''E2'', full_name = ''Bob'', email = ''b@x.com'', department = ''Ops'',
          emp_oid = 2\<rparr>],
      attendance =
        [\<lparr>att_oid = 1, att_employee_id = ''E1'', att_date = (2024, 1, 1), att_status = ''Absent''\<rparr>,
         \<lparr>att_oid = 3, att_employee_id = ''E2'', att_date = (2024, 1, 2), att_status = ''Present''\<rparr>],
      next_oid = 4\<rparr>"

text \<open>An e-mail check for the examples: a string with an at sign, unchanged.\<close>

definition example_EmailStr :: "string \<Rightarrow> string option" where
  "example_EmailStr v = (if CHR ''@'' \<in> set v then Some v else None)"

section \<open>Facts about the store\<close>

lemma update_one_status_oids: "map att_oid (update_one_status oid v ds) = map att_oid ds"
  by (induction ds) auto

lemma update_one_status_keys: "map att_key (update_one_status oid v ds) = map att_key ds"
  by (induction ds) (auto simp: att_key_def)

lemma update_one_status_statuses:
  "list_all (\<lambda>d. att_status d = ''Present'' \<or> att_status d = ''Absent'') ds \<Longrightarrow>
   v = ''Present'' \<or> v = ''Absent'' \<Longrightarrow>
   list_all (\<lambda>d. att_status d = ''Present'' \<or> att_status d = ''Absent'') (update_one_status oid v ds)"
  by (induction ds) auto

lemma update_one_status_bound:
  "list_all (\<lambda>d. att_oid d < n) ds \<Longrightarrow> list_all (\<lambda>d. att_oid d < n) (update_one_status oid v ds)"
  by (induction ds) auto


lemma status_value_ok: "status_value st = ''Present'' \<or> status_value st = ''Absent''"
  by (cases st) (simp_all add: status_value_def)

lemma create_employee_store:
  "snd (create_employee db e) =
     (if find (\<lambda>d. employee_id d = employee_id e) (employees db) \<noteq> None
         \<or> find (\<lambda>d. email d = email e) (employees db) \<noteq> None
      then db
      else db\<lparr>employees := employees db @
              [\<lparr>employee_id = employee_id e, full_name = full_name e,
                email = email e, department = department e, emp_oid = next_oid db\<rparr>],
              next_oid := Suc (next_oid db)\<rparr>)"
  by (simp add: create_employee_def employees_insert_one_def split: option.splits)

lemma mark_attendance_store:
  "snd (mark_attendance db a) =
     (case find (\<lambda>d. employee_id d = ac_employee_id a) (employees db) of
        None \<Rightarrow> db
      | Some employee \<Rightarrow>
          (case find (\<lambda>d. att_employee_id d = ac_employee_id a \<and> att_date d = ac_date a)
                  (attendance db) of
             Some existing \<Rightarrow>
               db\<lparr>attendance := update_one_status (att_oid existing) (status_value (ac_status a))
                                  (attendance db)\<rparr>
           | None \<Rightarrow>
               db\<lparr>attendance := attendance db @
                     [\<lparr>att_oid = next_oid db, att_employee_id = ac_employee_id a,
                       att_date = ac_date a, att_status = status_value (ac_status a)\<rparr>],
                  next_oid := Suc (next_oid db)\<rparr>))"
  by (simp add: mark_attendance_def attendance_insert_one_def Let_def split: option.splits)


lemma store_inv_create: "store_inv db \<Longrightarrow> store_inv (snd (create_employee db e))"
  by (auto simp: create_employee_store store_inv_def find_None_iff list_all_iff)

lemma store_inv_mark: "store_inv db \<Longrightarrow> store_inv (snd (mark_attendance db a))"
proof -
  assume inv: "store_inv db"
  show ?thesis
  proof (cases "find (\<lambda>d. employee_id d = ac_employee_id a) (employees db)")
    case None
    with inv show ?thesis by (simp add: mark_attendance_store)
  next
    case (Some employee)
    show ?thesis
    proof (cases "find (\<lambda>d. att_employee_id d = ac_employee_id a \<and> att_date d = ac_date a) (attendance db)")
      case None
      then have "(ac_employee_id a, ac_date a) \<notin> att_key ` set (attendance db)"
        by (auto simp: find_None_iff att_key_def)
      with inv Some None show ?thesis
        by (auto simp: mark_attendance_store store_inv_def att_key_def list_all_iff status_value_ok)
    next
      case existing: (Some existing)
      with inv Some show ?thesis
        by (simp add: mark_attendance_store store_inv_def update_one_status_oids
              update_one_status_keys update_one_status_bound update_one_status_statuses
              status_value_ok)
    qed
  qed
qed

lemma store_inv_run: "store_inv (run reqs)"
proof -
  have "store_inv db \<Longrightarrow> store_inv (foldl handle db reqs)" for db
  proof (induction reqs arbitrary: db)
    case Nil
    then show ?case by simp
  next
    case (Cons r reqs)
    then show ?case by (cases r) (simp_all add: store_inv_create store_inv_mark)
  qed
  moreover have "store_inv db0" by (simp add: store_inv_def db0_def)
  ultimately show ?thesis by (simp add: run_def)
qed


lemma create_employee_interleaved_id:
  "create_employee_interleaved db (\<lambda>s. s) e = create_employee db e"
  by (simp add: create_employee_interleaved_def create_employee_def)

lemma create_employee_result:
  "create_employee db e =
     (if find (\<lambda>d. employee_id d = employee_id e) (employees db) \<noteq> None
      then (Inl (HTTPException 400 ''Employee ID already exists''), db)
      else if find (\<lambda>d. email d = email e) (employees db) \<noteq> None
      then (Inl (HTTPException 400 ''Email already exists''), db)
      else (Inr (the (find (\<lambda>d. emp_oid d = next_oid db)
                   (employees db @
                      [\<lparr>employee_id = employee_id e, full_name = full_name e,
                        email = email e, department = department e, emp_oid = next_oid db\<rparr>]))),
            db\<lparr>employees := employees db @
                  [\<lparr>employee_id = employee_id e, full_name = full_name e,
                    email = email e, department = department e, emp_oid = next_oid db\<rparr>],
               next_oid := Suc (next_oid db)\<rparr>))"
  by (auto simp: create_employee_def employees_insert_one_def employee_helper_def find_None_iff
           split: option.splits)

lemma checked_str_strip: "checked_str lo hi v = Inr u \<Longrightarrow> u = strip v"
  by (auto simp: checked_str_def str_field_def no_empty_strings_def split: if_splits sum.splits)

lemma EmployeeCreate_validate_fields:
  "EmployeeCreate_validate EmailStr raw = Inr e \<Longrightarrow>
     employee_id e = strip (r_employee_id raw) \<and> full_name e = strip (r_full_name raw)
     \<and> department e = strip (r_department raw) \<and> EmailStr (r_email raw) = Some (email e)"
  by (auto simp: EmployeeCreate_validate_def split: sum.splits option.splits
           dest: checked_str_strip)

lemmas eval_defs =
  run_def db0_def alice_def bob_def mark_def create_employee_def employees_insert_one_def
  mark_attendance_def attendance_insert_one_def employee_helper_def attendance_helper_def
  with_employee_name_def status_value_def att_key_def

lemma mset_insert_desc: "mset (insert_desc x xs) = add_mset x (mset xs)"
  by (induction xs) auto

lemma mset_sort_date_desc: "mset (sort_date_desc ds) = mset ds"
  by (induction ds) (auto simp: sort_date_desc_def mset_insert_desc)

lemma set_insert_desc: "set (insert_desc x xs) = insert x (set xs)"
  by (induction xs) auto

lemma sorted_insert_desc:
  "sorted_wrt (\<lambda>a b. att_date b \<le> att_date a) xs \<Longrightarrow>
   sorted_wrt (\<lambda>a b. att_date b \<le> att_date a) (insert_desc x xs)"
  by (induction xs) (auto simp: set_insert_desc)

lemma sorted_sort_date_desc: "sorted_wrt (\<lambda>a b. att_date b \<le> att_date a) (sort_date_desc ds)"
  by (induction ds) (auto simp: sort_date_desc_def sorted_insert_desc)

lemma stored_doc_resolve_name: "stored_doc (resolve_name db d) = d"
  by (simp add: stored_doc_def resolve_name_def with_employee_name_def)

lemma get_attendance_ok:
  "parse_bound date_from = Inr lo \<Longrightarrow> parse_bound date_to = Inr hi \<Longrightarrow>
   get_attendance db emp_id date_from date_to =
     Inr (map (resolve_name db)
            (sort_date_desc
               (filter (matches \<lparr>q_employee_id = given emp_id, q_gte = lo, q_lte = hi\<rparr>)
                  (attendance db))))"
  by (simp add: get_attendance_def resolve_name_def attendance_helper_def)

text \<open>An empty string is a parameter that is not given.\<close>

lemma get_attendance_empty_string:
  "get_attendance db (Some '''') date_from date_to = get_attendance db None date_from date_to"
  "get_attendance db emp_id (Some '''') date_to = get_attendance db emp_id None date_to"
  "get_attendance db emp_id date_from (Some '''') = get_attendance db emp_id date_from None"
  by (simp_all add: get_attendance_def parse_bound_def given_def split: sum.splits)

lemma matches_iff:
  "matches \<lparr>q_employee_id = e, q_gte = lo, q_lte = hi\<rparr> d \<longleftrightarrow>
     (\<forall>x. e = Some x \<longrightarrow> att_employee_id d = x)
     \<and> (\<forall>l. lo = Some l \<longrightarrow> l \<le> att_date d)
     \<and> (\<forall>h. hi = Some h \<longrightarrow> att_date d \<le> h)"
  by (auto simp: matches_def split: option.splits)

lemmas strptime_defs =
  strptime_def re_ymd_def re_Y_def re_m_def re_d_def re_lit_def re_chars1_def re_chars2_def
  digit_val_def days_in_month_def is_leap_def

lemma example_db_eq:
  "example_db =
     \<lparr>employees =
        [\<lparr>employee_id = ''E1'', full_name = ''Alice'', email = ''a@x.com'', department = ''Eng'',
          emp_oid = 0\<rparr>,
         \<lparr>employee_id = ''E2'', full_name = ''Bob'', email = ''b@x.com'', department = ''Ops'',
          emp_oid = 2\<rparr>],
      attendance =
        [\<lparr>att_oid = 1, att_employee_id = ''E1'', att_date = (2024, 1, 1), att_status = ''Absent''\<rparr>,
         \<lparr>att_oid = 3, att_employee_id = ''E2'', att_date = (2024, 1, 2), att_status = ''Present''\<rparr>,
         \<lparr>att_oid = 4, att_employee_id = ''E1'', att_date = (2024, 1, 3), att_status = ''Present''\<rparr>],
      next_oid = 5\<rparr>"
  by (simp add: example_db_def eval_defs)

lemma parse_bound_examples:
  "parse_bound None = Inr None"
  "parse_bound (Some ''2024-01-01'') = Inr (Some (2024, 1, 1))"
  "parse_bound (Some ''2024-01-02'') = Inr (Some (2024, 1, 2))"
  "parse_bound (Some ''2024-01-03'') = Inr (Some (2024, 1, 3))"
  by (simp_all add: parse_bound_def given_def strptime_defs)

lemma group_of_step:
  "group_of (group_step acc d) eid =
     (if att_employee_id d = eid
      then \<lparr>g_total_present = g_total_present (group_of acc eid)
                                + (if att_status d = ''Present'' then 1 else 0),
            g_total_absent = g_total_absent (group_of acc eid)
                               + (if att_status d = ''Absent'' then 1 else 0),
            g_total_days = g_total_days (group_of acc eid) + 1\<rparr>
      else group_of acc eid)"
  by (simp add: group_of_def group_step_def Let_def)

lemma group_of_foldl:
  "group_of (foldl group_step acc docs) eid =
     \<lparr>g_total_present = g_total_present (group_of acc eid)
        + length (filter (\<lambda>d. att_employee_id d = eid \<and> att_status d = ''Present'') docs),
      g_total_absent = g_total_absent (group_of acc eid)
        + length (filter (\<lambda>d. att_employee_id d = eid \<and> att_status d = ''Absent'') docs),
      g_total_days = g_total_days (group_of acc eid)
        + length (filter (\<lambda>d. att_employee_id d = eid) docs)\<rparr>"
proof (induction docs arbitrary: acc)
  case Nil
  then show ?case by simp
next
  case (Cons d docs)
  show ?case
    by (simp add: Cons.IH group_of_step)
qed

lemma group_of_aggregate:
  "group_of (aggregate_group docs) eid =
     \<lparr>g_total_present = length (filter (\<lambda>d. att_employee_id d = eid \<and> att_status d = ''Present'') docs),
      g_total_absent = length (filter (\<lambda>d. att_employee_id d = eid \<and> att_status d = ''Absent'') docs),
      g_total_days = length (filter (\<lambda>d. att_employee_id d = eid) docs)\<rparr>"
  by (simp add: aggregate_group_def group_of_foldl) (simp add: group_of_def group_zero_def)

lemma get_attendance_stats_eq:
  "get_attendance_stats db =
     map (\<lambda>e. \<lparr>stat_employee_id = employee_id e,
                stat_employee_name = full_name e,
                total_present =
                  length (filter (\<lambda>d. att_employee_id d = employee_id e \<and> att_status d = ''Present'')
                            (attendance db)),
                total_absent =
                  length (filter (\<lambda>d. att_employee_id d = employee_id e \<and> att_status d = ''Absent'')
                            (attendance db)),
                total_days =
                  length (filter (\<lambda>d. att_employee_id d = employee_id e) (attendance db))\<rparr>)
       (employees db)"
  unfolding get_attendance_stats_def Let_def group_of_def [symmetric]
  by (simp add: group_of_aggregate)

lemma count_present_absent:
  "list_all (\<lambda>d. att_status d = ''Present'' \<or> att_status d = ''Absent'') ds \<Longrightarrow>
   length (filter (\<lambda>d. att_employee_id d = eid) ds) =
     length (filter (\<lambda>d. att_employee_id d = eid \<and> att_status d = ''Present'') ds)
     + length (filter (\<lambda>d. att_employee_id d = eid \<and> att_status d = ''Absent'') ds)"
  by (induction ds) auto

lemma stats_db_eq:
  "stats_db =
     \<lparr>employees =
        [\<lparr>employee_id = ''E1'', full_name = ''Alice'', email = ''a@x.com'', department = ''Eng'',
          emp_oid = 0\<rparr>,
         \<lparr>employee_id = ''E2'', full_name = ''Bob'', email = ''b@x.com'', department = ''Ops'',
          emp_oid = 6\<rparr>],
      attendance =
        [\<lparr>att_oid = 1, att_employee_id = ''E1'', att_date = (2024, 1, 1), att_status = ''Present''\<rparr>,
         \<lparr>att_oid = 2, att_employee_id = ''E1'', att_date = (2024, 1, 2), att_status = ''Absent''\<rparr>,
         \<lparr>att_oid = 3, att_employee_id = ''E1'', att_date = (2024, 1, 3), att_status = ''Present''\<rparr>,
         \<lparr>att_oid = 4, att_employee_id = ''E1'', att_date = (2024, 1, 4), att_status = ''Absent''\<rparr>,
         \<lparr>att_oid = 5, att_employee_id = ''E1'', att_date = (2024, 1, 5), att_status = ''Present''\<rparr>],
      next_oid = 7\<rparr>"
  by (simp add: stats_db_def eval_defs)

lemma length_filter_content:
  "length (filter (\<lambda>d. P (attendance_content d)) ds) =
     size {#a \<in># mset (map attendance_content ds). P a#}"
  by (induction ds) auto

lemma length_filter_arow_content:
  "length (filter (\<lambda>r. P (arow_content r)) rs) =
     size {#a \<in># mset (map arow_content rs). P a#}"
  by (induction rs) auto

lemma get_attendance_stats_content:
  "get_attendance_stats db =
     map (\<lambda>e. stats_of_content (mset (map attendance_content (attendance db))) (employee_content e))
       (employees db)"
proof -
  have p: "length (filter (\<lambda>d. att_employee_id d = x \<and> att_status d = v) ds) =
        size {#a \<in># mset (map attendance_content ds). fst a = x \<and> snd (snd a) = v#}" for x v ds
    using length_filter_content [of "\<lambda>a. fst a = x \<and> snd (snd a) = v" ds]
    by (simp add: attendance_content_def)
  have t: "length (filter (\<lambda>d. att_employee_id d = x) ds) =
        size {#a \<in># mset (map attendance_content ds). fst a = x#}" for x ds
    using length_filter_content [of "\<lambda>a. fst a = x" ds]
    by (simp add: attendance_content_def)
  show ?thesis
    by (simp add: get_attendance_stats_eq stats_of_content_def employee_content_def p t)
qed

lemma status_value_inj: "status_value a = status_value b \<longleftrightarrow> a = b"
  by (cases a; cases b; simp add: status_value_def)

lemma count_rows_present_absent:
  "length (filter (\<lambda>r. arow_employee_id r = x \<and> arow_status r = PRESENT) rs)
   + length (filter (\<lambda>r. arow_employee_id r = x \<and> arow_status r = ABSENT) rs)
   = length (filter (\<lambda>r. arow_employee_id r = x) rs)"
proof (induction rs)
  case Nil
  then show ?case by simp
next
  case (Cons r rs)
  then show ?case by (cases "arow_status r") auto
qed

lemma get_attendance_stats_sql_content:
  "get_attendance_stats_sql db =
     map (\<lambda>e. stats_of_content (mset (map arow_content (attendance_table db))) (row_content e))
       (employees_table db)"
proof -
  have p: "length (filter (\<lambda>r. arow_employee_id r = x \<and> arow_status r = st) rs) =
        size {#a \<in># mset (map arow_content rs). fst a = x \<and> snd (snd a) = status_value st#}" for x st rs
    by (induction rs) (auto simp: arow_content_def status_value_inj)
  have t: "length (filter (\<lambda>r. arow_employee_id r = x) rs) =
        size {#a \<in># mset (map arow_content rs). fst a = x#}" for x rs
    using length_filter_arow_content [of "\<lambda>a. fst a = x" rs]
    by (simp add: arow_content_def)
  have pv: "status_value PRESENT = ''Present''" "status_value ABSENT = ''Absent''"
    by (simp_all add: status_value_def)
  show ?thesis
    unfolding get_attendance_stats_sql_def Let_def count_rows_present_absent
    by (simp add: stats_of_content_def row_content_def p t pv)
qed

subsection \<open>Every interleaving keeps the store well formed\<close>

lemma create_employee_awaits:
  "steps 4 db (CE0 e) = (CE_done (fst (create_employee db e)), snd (create_employee db e))"
  by (simp add: eval_nat_numeral create_employee_def split: sum.splits option.splits prod.splits)

lemma mark_attendance_awaits:
  "steps 4 db (MA0 a) = (MA_done (fst (mark_attendance db a)), snd (mark_attendance db a))"
  by (simp add: eval_nat_numeral mark_attendance_def Let_def
           split: sum.splits option.splits prod.splits)






lemma steps_done:
  "steps n db (CE_done r) = (CE_done r, db)" "steps n db (MA_done q) = (MA_done q, db)"
  by (induction n) simp_all

lemma deliver_awaits:
  "foldl deliver (db, ps @ [p]) (replicate n (Await (length ps))) =
     (snd (steps n db p), ps @ [fst (steps n db p)])"
  by (induction n arbitrary: db p) (simp_all split: prod.splits)

lemma steps_handle: "snd (steps 4 db (start r)) = handle db r"
  by (cases r) (simp_all add: create_employee_awaits mark_attendance_awaits)

lemma deliver_request:
  "fst (foldl deliver (db, ps) (Request r # replicate 4 (Await (length ps)))) = handle db r"
  by (simp add: deliver_awaits steps_handle)

lemma serve_then_handle:
  "fst (serve (evs @ Request r # replicate 4 (Await (length (snd (serve evs)))))) =
     handle (fst (serve evs)) r"
  using deliver_request [of "fst (serve evs)" "snd (serve evs)" r]
  by (simp add: serve_def)

lemma serial_run: "fst (serve (serial 0 reqs)) = run reqs"
proof -
  have "fst (foldl deliver (db, ps) (serial (length ps) reqs)) = foldl handle db reqs" for db ps
  proof (induction reqs arbitrary: db ps)
    case Nil
    then show ?case by simp
  next
    case (Cons r reqs)
    have "foldl deliver (db, ps) (Request r # replicate 4 (Await (length ps))) =
            (handle db r, ps @ [fst (steps 4 db (start r))])"
      by (simp add: deliver_awaits steps_handle)
    with Cons.IH [of "handle db r" "ps @ [fst (steps 4 db (start r))]"] show ?case
      by simp
  qed
  from this [of db0 "[]"] show ?thesis
    by (simp add: serve_def run_def)
qed


subsection \<open>Trimming\<close>

lemma strip_decompose:
  "\<exists>l r. v = l @ strip v @ r \<and> list_all isspace l \<and> list_all isspace r"
proof -
  let ?w = "dropWhile isspace v"
  have "v = takeWhile isspace v @ ?w" by simp
  moreover have "rev ?w = takeWhile isspace (rev ?w) @ dropWhile isspace (rev ?w)" by simp
  then have "?w = strip v @ rev (takeWhile isspace (rev ?w))"
    unfolding strip_def by (metis rev_append rev_rev_ident)
  moreover have "list_all isspace (takeWhile isspace v)"
    by (simp add: list_all_iff) (meson set_takeWhileD)
  moreover have "list_all isspace (rev (takeWhile isspace (rev ?w)))"
    by (simp add: list_all_iff) (meson set_takeWhileD)
  ultimately show ?thesis by metis
qed

lemma strip_ends:
  assumes "strip v \<noteq> []"
  shows "\<not> isspace (hd (strip v)) \<and> \<not> isspace (last (strip v))"
proof -
  let ?w = "dropWhile isspace v"
  let ?u = "dropWhile isspace (rev ?w)"
  from assms have u: "?u \<noteq> []" by (simp add: strip_def)
  then have "\<not> isspace (hd ?u)" by (rule hd_dropWhile)
  with u have l: "\<not> isspace (last (strip v))"
    by (simp add: strip_def last_rev)
  from u have w: "?w \<noteq> []" by (metis dropWhile.simps(1) rev.simps(1))
  then have hw: "\<not> isspace (hd ?w)" by (rule hd_dropWhile)
  have "rev ?w = takeWhile isspace (rev ?w) @ ?u" by simp
  then have "?w = strip v @ rev (takeWhile isspace (rev ?w))"
    unfolding strip_def by (metis rev_append rev_rev_ident)
  with assms have "hd ?w = hd (strip v)" by (metis hd_append2)
  with hw l show ?thesis by simp
qed

lemma strip_padding:
  "list_all isspace l \<Longrightarrow> list_all isspace r \<Longrightarrow> strip (l @ v @ r) = strip v"
proof -
  assume l: "list_all isspace l" and r: "list_all isspace r"
  have a: "dropWhile isspace (l @ x) = dropWhile isspace x" for x
    using l by (simp add: dropWhile_append list_all_iff)
  have b: "dropWhile isspace (rev r @ x) = dropWhile isspace x" for x
    using r by (simp add: dropWhile_append list_all_iff)
  show ?thesis
  proof (cases "dropWhile isspace v = []")
    case True
    then have "\<forall>c\<in>set v. isspace c" by (simp add: dropWhile_eq_Nil_conv)
    with r have e: "dropWhile isspace (v @ r) = []"
      by (simp add: dropWhile_eq_Nil_conv list_all_iff)
    have "strip (l @ v @ r) = rev (dropWhile isspace (rev (dropWhile isspace (v @ r))))"
      unfolding strip_def a ..
    also have "\<dots> = []" unfolding e by simp
    also have "\<dots> = strip v" unfolding strip_def True by simp
    finally show ?thesis .
  next
    case False
    then have "dropWhile isspace (v @ r) = dropWhile isspace v @ r"
      by (auto simp: dropWhile_append dropWhile_eq_Nil_conv)
    then show ?thesis by (simp add: strip_def a b)
  qed
qed

lemma checked_str_nonempty: "checked_str lo hi v = Inr u \<Longrightarrow> strip v \<noteq> []"
  by (auto simp: checked_str_def str_field_def no_empty_strings_def split: if_splits sum.splits)

lemma EmployeeCreate_validate_nonempty:
  "EmployeeCreate_validate EmailStr raw = Inr e \<Longrightarrow>
     strip (r_employee_id raw) \<noteq> [] \<and> strip (r_full_name raw) \<noteq> []
     \<and> strip (r_department raw) \<noteq> []"
  by (auto simp: EmployeeCreate_validate_def split: sum.splits option.splits
           dest: checked_str_nonempty)

lemma EmployeeCreate_validate_error:
  "EmployeeCreate_validate EmailStr raw = Inl e \<Longrightarrow> e = ValidationError"
  by (auto simp: EmployeeCreate_validate_def split: sum.splits option.splits)

lemma padded_id_facts: "length padded_id = 51" "strip padded_id = strip ''E1''"
proof -
  show "length padded_id = 51" by (simp add: padded_id_def)
  have "list_all isspace (replicate 49 (CHR '' ''))"
    by (simp add: list_all_iff isspace_def)
  from strip_padding [of "[]" "replicate 49 (CHR '' '')" "''E1''"] this
  show "strip padded_id = strip ''E1''"
    by (simp add: padded_id_def)
qed

section \<open>Validation of the attendance date\<close>

text \<open>
  C8. The date validator raises for every date strictly after the current date and returns
  the current date itself. So a payload whose date is strictly after the current date is
  rejected with the validation error, whatever its other fields; a payload dated today with
  a status of the enumeration is accepted, and the model carries today's date.
\<close>

theorem attendance_date_not_in_future:
  "(today < v \<longrightarrow> validate_date today v = Inl ValueError)
   \<and> validate_date today today = Inr today
   \<and> (today < raw_date raw \<longrightarrow> AttendanceCreate_validate today raw = Inl ValidationError)
   \<and> (raw_date raw = today \<and> AttendanceStatus_of (raw_status raw) = Some st \<longrightarrow>
        AttendanceCreate_validate today raw =
          Inr \<lparr>ac_employee_id = raw_employee_id raw, ac_date = today, ac_status = st\<rparr>)"
  by (simp add: AttendanceCreate_validate_def validate_date_def)

theorem attendance_date_not_in_future_witness:
  "(2024, 1, 1) < ((2024, 1, 2) :: date)
   \<and> validate_date (2024, 1, 1) (2024, 1, 2) = Inl ValueError
   \<and> AttendanceCreate_validate (2024, 1, 1)
        \<lparr>raw_employee_id = ''E1'', raw_date = (2024, 1, 2), raw_status = ''Present''\<rparr>
       = Inl ValidationError
   \<and> AttendanceStatus_of ''Absent'' = Some ABSENT
   \<and> AttendanceCreate_validate (2024, 1, 1)
        \<lparr>raw_employee_id = ''E1'', raw_date = (2024, 1, 1), raw_status = ''Absent''\<rparr>
       = Inr \<lparr>ac_employee_id = ''E1'', ac_date = (2024, 1, 1), ac_status = ABSENT\<rparr>"
proof -
  have h: "(2024, 1, 1) < ((2024, 1, 2) :: date)"
    by simp
  have st: "AttendanceStatus_of ''Absent'' = Some ABSENT"
    by (simp add: AttendanceStatus_of_def)
  from attendance_date_not_in_future
         [of "(2024, 1, 1)" "(2024, 1, 2)"
             "\<lparr>raw_employee_id = ''E1'', raw_date = (2024, 1, 2), raw_status = ''Present''\<rparr>" ABSENT] h
  have a: "validate_date (2024, 1, 1) (2024, 1, 2) = Inl ValueError"
    and b: "AttendanceCreate_validate (2024, 1, 1)
        \<lparr>raw_employee_id = ''E1'', raw_date = (2024, 1, 2), raw_status = ''Present''\<rparr>
       = Inl ValidationError"
    by simp_all
  from attendance_date_not_in_future
         [of "(2024, 1, 1)" "(2024, 1, 2)"
             "\<lparr>raw_employee_id = ''E1'', raw_date = (2024, 1, 1), raw_status = ''Absent''\<rparr>" ABSENT] st
  have c: "AttendanceCreate_validate (2024, 1, 1)
        \<lparr>raw_employee_id = ''E1'', raw_date = (2024, 1, 1), raw_status = ''Absent''\<rparr>
       = Inr \<lparr>ac_employee_id = ''E1'', ac_date = (2024, 1, 1), ac_status = ABSENT\<rparr>"
    by simp
  from h st a b c show ?thesis by simp
qed

section \<open>Marking attendance for an unknown employee\<close>

text \<open>
  C5. When no stored employee has the submitted \<open>employee_id\<close>, marking attendance fails
  with the 404 exception (the not-found error) and returns the store as it was, so no
  attendance record is created.
\<close>

theorem mark_attendance_unknown_employee:
  "find (\<lambda>d. employee_id d = ac_employee_id a) (employees db) = None \<Longrightarrow>
     mark_attendance db a = (Inl (HTTPException 404 ''Employee not found''), db)
     \<and> is_NotFoundError (HTTPException 404 ''Employee not found'')
     \<and> attendance (snd (mark_attendance db a)) = attendance db"
  by (simp add: mark_attendance_def is_NotFoundError_def)

theorem mark_attendance_unknown_employee_witness:
  "find (\<lambda>d. employee_id d = ''E9'') (employees (run [CreateEmployee alice])) = None
   \<and> mark_attendance (run [CreateEmployee alice])
        \<lparr>ac_employee_id = ''E9'', ac_date = (2024, 1, 1), ac_status = PRESENT\<rparr>
      = (Inl (HTTPException 404 ''Employee not found''), run [CreateEmployee alice])
   \<and> attendance (snd (mark_attendance (run [CreateEmployee alice])
        \<lparr>ac_employee_id = ''E9'', ac_date = (2024, 1, 1), ac_status = PRESENT\<rparr>)) = []"
proof -
  have h: "find (\<lambda>d. employee_id d = ac_employee_id \<lparr>ac_employee_id = ''E9'', ac_date = (2024, 1, 1), ac_status = PRESENT\<rparr>)
             (employees (run [CreateEmployee alice])) = None"
    by (simp add: eval_defs)
  have e: "attendance (run [CreateEmployee alice]) = []"
    by (simp add: eval_defs)
  show ?thesis
    using h e mark_attendance_unknown_employee [OF h] by simp
qed

section \<open>One attendance record per employee and date\<close>



section \<open>Creating an employee whose identifier or e-mail is taken\<close>

text \<open>
  C2. When the store already holds an employee with the submitted
  \<open>employee_id\<close> or the submitted \<open>email\<close>, create-employee fails with the 400 exception
  (the conflict error), whatever the other fields, and returns the store as it was. When
  both look-ups found nothing and the duplicate is in the store only by the time of the
  insert, the unique index rejects the insert and the handler lets the store's
  \<open>DuplicateKeyError\<close> through: the request ends with status 500, not with the conflict
  error, and inserts nothing.
\<close>

theorem create_employee_duplicate:
  "(find (\<lambda>d. employee_id d = employee_id e) (employees db) \<noteq> None
      \<or> find (\<lambda>d. email d = email e) (employees db) \<noteq> None \<longrightarrow>
      create_employee db e =
        (Inl (HTTPException 400
               (if find (\<lambda>d. employee_id d = employee_id e) (employees db) \<noteq> None
                then ''Employee ID already exists'' else ''Email already exists'')), db)
      \<and> is_ConflictError (HTTPException 400
               (if find (\<lambda>d. employee_id d = employee_id e) (employees db) \<noteq> None
                then ''Employee ID already exists'' else ''Email already exists'')))
   \<and> (find (\<lambda>d. employee_id d = employee_id e) (employees db) = None
      \<and> find (\<lambda>d. email d = email e) (employees db) = None
      \<and> (find (\<lambda>d. employee_id d = employee_id e) (employees (other db)) \<noteq> None
          \<or> find (\<lambda>d. email d = email e) (employees (other db)) \<noteq> None) \<longrightarrow>
      create_employee_interleaved db other e = (Inl DuplicateKeyError, other db)
      \<and> \<not> is_ConflictError DuplicateKeyError
      \<and> http_status DuplicateKeyError = 500)"
  by (auto simp: create_employee_def create_employee_interleaved_def employees_insert_one_def
        is_ConflictError_def http_status_def)

theorem create_employee_duplicate_witness:
  "find (\<lambda>d. employee_id d = employee_id (bob\<lparr>employee_id := ''E1''\<rparr>))
       (employees (run [CreateEmployee alice])) \<noteq> None
   \<and> create_employee (run [CreateEmployee alice]) (bob\<lparr>employee_id := ''E1''\<rparr>)
       = (Inl (HTTPException 400 ''Employee ID already exists''), run [CreateEmployee alice])
   \<and> find (\<lambda>d. employee_id d = employee_id alice) (employees db0) = None
   \<and> find (\<lambda>d. email d = email alice) (employees db0) = None
   \<and> find (\<lambda>d. employee_id d = employee_id alice)
        (employees (snd (create_employee db0 alice))) \<noteq> None
   \<and> create_employee_interleaved db0 (\<lambda>db. snd (create_employee db alice)) alice
       = (Inl DuplicateKeyError, snd (create_employee db0 alice))"
proof -
  have h1: "find (\<lambda>d. employee_id d = employee_id (bob\<lparr>employee_id := ''E1''\<rparr>))
              (employees (run [CreateEmployee alice])) \<noteq> None"
    by (simp add: eval_defs)
  have h2: "find (\<lambda>d. employee_id d = employee_id alice) (employees db0) = None"
    "find (\<lambda>d. email d = email alice) (employees db0) = None"
    by (simp_all add: db0_def)
  have h3: "find (\<lambda>d. employee_id d = employee_id alice)
              (employees (snd (create_employee db0 alice))) \<noteq> None"
    by (simp add: eval_defs)
  show ?thesis
    using h1 h2 h3
      create_employee_duplicate [of "bob\<lparr>employee_id := ''E1''\<rparr>" "run [CreateEmployee alice]" "\<lambda>s. s"]
      create_employee_duplicate [of alice db0 "\<lambda>db. snd (create_employee db alice)"]
    by simp
qed

text \<open>
  A duplicate found only at the insert is not reported as the conflict error: on the empty
  store both look-ups for Alice find nothing; another request creates Alice before the
  insert; the request then ends with \<open>DuplicateKeyError\<close>.
\<close>

theorem create_employee_race_counterexample:
  "find (\<lambda>d. employee_id d = employee_id alice) (employees db0) = None
   \<and> find (\<lambda>d. email d = email alice) (employees db0) = None
   \<and> fst (create_employee_interleaved db0 (\<lambda>db. snd (create_employee db alice)) alice)
       = Inl DuplicateKeyError
   \<and> \<not> is_ConflictError DuplicateKeyError"
  by (simp add: create_employee_interleaved_def eval_defs is_ConflictError_def)

section \<open>Trimmed fields of a created employee\<close>

text \<open>
  C10. When a payload is accepted and the employee created, the stored employee's
  \<open>employee_id\<close>, \<open>full_name\<close> and \<open>department\<close> are the submitted strings with the
  surrounding whitespace removed: each submitted string is whitespace, then the stored
  string, then whitespace, and the stored string is not empty and neither starts nor ends
  with whitespace. A later payload whose \<open>employee_id\<close> is the same after trimming is
  refused, and the store stays as it is: with the 400 exception
  \<^verbatim>\<open>Employee ID already exists\<close> when the payload passes validation, with the validation
  error when it does not. The length bounds are checked on the submitted strings.
\<close>

theorem employee_fields_trimmed:
  assumes ok: "fst (post_employees EmailStr db raw) = Inr doc"
  shows "(\<exists>addr. EmailStr (r_email raw) = Some addr
           \<and> employees (snd (post_employees EmailStr db raw)) =
               employees db @
                 [\<lparr>employee_id = strip (r_employee_id raw), full_name = strip (r_full_name raw),
                   email = addr, department = strip (r_department raw),
                   emp_oid = next_oid db\<rparr>])
         \<and> list_all (\<lambda>v. (\<exists>l r. v = l @ strip v @ r \<and> list_all isspace l \<and> list_all isspace r)
                          \<and> strip v \<noteq> [] \<and> \<not> isspace (hd (strip v))
                          \<and> \<not> isspace (last (strip v)))
             [r_employee_id raw, r_full_name raw, r_department raw]
         \<and> (\<forall>raw2. strip (r_employee_id raw2) = strip (r_employee_id raw) \<longrightarrow>
              post_employees EmailStr (snd (post_employees EmailStr db raw)) raw2 =
                (case EmployeeCreate_validate EmailStr raw2 of
                   Inl e \<Rightarrow> Inl ValidationError
                 | Inr e2 \<Rightarrow> Inl (HTTPException 400 ''Employee ID already exists''),
                 snd (post_employees EmailStr db raw)))"
proof -
  from ok obtain e where v: "EmployeeCreate_validate EmailStr raw = Inr e"
    and c: "fst (create_employee db e) = Inr doc"
    by (auto simp: post_employees_def split: sum.splits)
  note f = EmployeeCreate_validate_fields [OF v]
  note n = EmployeeCreate_validate_nonempty [OF v]
  from c have pre: "find (\<lambda>d. employee_id d = employee_id e) (employees db) = None"
    "find (\<lambda>d. email d = email e) (employees db) = None"
    by (auto simp: create_employee_result split: if_splits)
  let ?db' = "snd (post_employees EmailStr db raw)"
  have st: "employees ?db' = employees db @
              [\<lparr>employee_id = employee_id e, full_name = full_name e,
                email = email e, department = department e, emp_oid = next_oid db\<rparr>]"
    using v pre by (simp add: post_employees_def create_employee_result)
  have first: "\<exists>addr. EmailStr (r_email raw) = Some addr
           \<and> employees ?db' =
               employees db @
                 [\<lparr>employee_id = strip (r_employee_id raw), full_name = strip (r_full_name raw),
                   email = addr, department = strip (r_department raw),
                   emp_oid = next_oid db\<rparr>]"
    using st f by auto
  have trimmed: "list_all (\<lambda>v. (\<exists>l r. v = l @ strip v @ r \<and> list_all isspace l \<and> list_all isspace r)
                          \<and> strip v \<noteq> [] \<and> \<not> isspace (hd (strip v))
                          \<and> \<not> isspace (last (strip v)))
             [r_employee_id raw, r_full_name raw, r_department raw]"
    using n strip_decompose strip_ends by simp
  have second: "post_employees EmailStr ?db' raw2 =
                (case EmployeeCreate_validate EmailStr raw2 of
                   Inl e \<Rightarrow> Inl ValidationError
                 | Inr e2 \<Rightarrow> Inl (HTTPException 400 ''Employee ID already exists''), ?db')"
    if same: "strip (r_employee_id raw2) = strip (r_employee_id raw)" for raw2
  proof (cases "EmployeeCreate_validate EmailStr raw2")
    case (Inl err)
    with EmployeeCreate_validate_error [OF Inl] show ?thesis
      by (simp add: post_employees_def)
  next
    case (Inr e2)
    from EmployeeCreate_validate_fields [OF Inr] same f
    have "employee_id e2 = employee_id e" by simp
    then have "find (\<lambda>d. employee_id d = employee_id e2) (employees ?db') \<noteq> None"
      by (auto simp: st find_None_iff)
    with Inr show ?thesis
      by (simp add: post_employees_def create_employee_result)
  qed
  from first trimmed second show ?thesis by blast
qed

theorem employee_fields_trimmed_witness:
  "fst (post_employees example_EmailStr db0
          \<lparr>r_employee_id = ''  E1 '', r_full_name = '' Alice'', r_email = ''a@x.com'',
           r_department = ''Eng  ''\<rparr>)
     = Inr \<lparr>employee_id = ''E1'', full_name = ''Alice'', email = ''a@x.com'', department = ''Eng'',
            emp_oid = 0\<rparr>
   \<and> employees (snd (post_employees example_EmailStr db0
          \<lparr>r_employee_id = ''  E1 '', r_full_name = '' Alice'', r_email = ''a@x.com'',
           r_department = ''Eng  ''\<rparr>))
     = [\<lparr>employee_id = ''E1'', full_name = ''Alice'', email = ''a@x.com'', department = ''Eng'',
         emp_oid = 0\<rparr>]
   \<and> strip ([CHR 0xA0, CHR ''E'', CHR ''1'', CHR 0x85]) = strip ''  E1 ''
   \<and> EmployeeCreate_validate example_EmailStr
          \<lparr>r_employee_id = [CHR 0xA0, CHR ''E'', CHR ''1'', CHR 0x85], r_full_name = ''Bob'',
           r_email = ''b@x.com'', r_department = ''Ops''\<rparr> = Inr (bob\<lparr>employee_id := ''E1''\<rparr>)
   \<and> fst (post_employees example_EmailStr
        (snd (post_employees example_EmailStr db0
          \<lparr>r_employee_id = ''  E1 '', r_full_name = '' Alice'', r_email = ''a@x.com'',
           r_department = ''Eng  ''\<rparr>))
          \<lparr>r_employee_id = [CHR 0xA0, CHR ''E'', CHR ''1'', CHR 0x85], r_full_name = ''Bob'',
           r_email = ''b@x.com'', r_department = ''Ops''\<rparr>)
      = Inl (HTTPException 400 ''Employee ID already exists'')"
proof -
  let ?raw = "\<lparr>r_employee_id = ''  E1 '', r_full_name = '' Alice'', r_email = ''a@x.com'',
           r_department = ''Eng  ''\<rparr>"
  let ?raw2 = "\<lparr>r_employee_id = [CHR 0xA0, CHR ''E'', CHR ''1'', CHR 0x85], r_full_name = ''Bob'',
           r_email = ''b@x.com'', r_department = ''Ops''\<rparr>"
  have s: "strip ''  E1 '' = ''E1''" "strip ([CHR 0xA0, CHR ''E'', CHR ''1'', CHR 0x85]) = ''E1''"
    "strip '' Alice'' = ''Alice''"
    "strip ''Eng  '' = ''Eng''" "strip ''Bob'' = ''Bob''" "strip ''Ops'' = ''Ops''"
    by (simp_all add: strip_def isspace_def)
  have v1: "EmployeeCreate_validate example_EmailStr ?raw = Inr alice"
    by (simp add: EmployeeCreate_validate_def checked_str_def str_field_def no_empty_strings_def
          s example_EmailStr_def alice_def)
  have v2: "EmployeeCreate_validate example_EmailStr ?raw2 = Inr (bob\<lparr>employee_id := ''E1''\<rparr>)"
    by (simp add: EmployeeCreate_validate_def checked_str_def str_field_def no_empty_strings_def
          s example_EmailStr_def bob_def)
  have h: "fst (post_employees example_EmailStr db0 ?raw) =
             Inr \<lparr>employee_id = ''E1'', full_name = ''Alice'', email = ''a@x.com'',
                   department = ''Eng'', emp_oid = 0\<rparr>"
    by (simp add: post_employees_def v1) (simp add: eval_defs)
  from employee_fields_trimmed [OF h]
  have A: "\<exists>addr. example_EmailStr (r_email ?raw) = Some addr
           \<and> employees (snd (post_employees example_EmailStr db0 ?raw)) =
               employees db0 @
                 [\<lparr>employee_id = strip (r_employee_id ?raw), full_name = strip (r_full_name ?raw),
                   email = addr, department = strip (r_department ?raw),
                   emp_oid = next_oid db0\<rparr>]"
    and B: "\<forall>raw2. strip (r_employee_id raw2) = strip (r_employee_id ?raw) \<longrightarrow>
              post_employees example_EmailStr (snd (post_employees example_EmailStr db0 ?raw)) raw2 =
                (case EmployeeCreate_validate example_EmailStr raw2 of
                   Inl e \<Rightarrow> Inl ValidationError
                 | Inr e2 \<Rightarrow> Inl (HTTPException 400 ''Employee ID already exists''),
                 snd (post_employees example_EmailStr db0 ?raw))"
    by blast+
  from B [rule_format, of ?raw2] v2 s
  have C: "post_employees example_EmailStr (snd (post_employees example_EmailStr db0 ?raw)) ?raw2 =
                (Inl (HTTPException 400 ''Employee ID already exists''),
                 snd (post_employees example_EmailStr db0 ?raw))"
    by simp
  from A have D: "employees (snd (post_employees example_EmailStr db0 ?raw)) =
     [\<lparr>employee_id = ''E1'', full_name = ''Alice'', email = ''a@x.com'', department = ''Eng'', emp_oid = 0\<rparr>]"
    by (auto simp: s example_EmailStr_def db0_def)
  from C D h v2 s show ?thesis by simp
qed

text \<open>
  A second submission that differs from the first only in whitespace around the
  \<open>employee_id\<close> does not always end in the conflict error: with 49 spaces after
  \<^verbatim>\<open>E1\<close> the identifier has 51 characters, and the request ends in the validation error.
\<close>

theorem employee_id_padding_counterexample:
  "fst (post_employees example_EmailStr db0
          \<lparr>r_employee_id = ''E1'', r_full_name = ''Alice'', r_email = ''a@x.com'',
           r_department = ''Eng''\<rparr>)
     = Inr \<lparr>employee_id = ''E1'', full_name = ''Alice'', email = ''a@x.com'', department = ''Eng'',
            emp_oid = 0\<rparr>
   \<and> strip padded_id = strip ''E1''
   \<and> fst (post_employees example_EmailStr
        (snd (post_employees example_EmailStr db0
          \<lparr>r_employee_id = ''E1'', r_full_name = ''Alice'', r_email = ''a@x.com'',
           r_department = ''Eng''\<rparr>))
          \<lparr>r_employee_id = padded_id, r_full_name = ''Alice'', r_email = ''a@x.com'',
           r_department = ''Eng''\<rparr>)
      = Inl ValidationError
   \<and> \<not> is_ConflictError ValidationError"
proof -
  have s: "strip ''E1'' = ''E1''" "strip ''Alice'' = ''Alice''" "strip ''Eng'' = ''Eng''"
    by (simp_all add: strip_def isspace_def)
  have v1: "EmployeeCreate_validate example_EmailStr
          \<lparr>r_employee_id = ''E1'', r_full_name = ''Alice'', r_email = ''a@x.com'',
           r_department = ''Eng''\<rparr> = Inr alice"
    by (simp add: EmployeeCreate_validate_def checked_str_def str_field_def no_empty_strings_def
          s example_EmailStr_def alice_def)
  have a: "fst (post_employees example_EmailStr db0
          \<lparr>r_employee_id = ''E1'', r_full_name = ''Alice'', r_email = ''a@x.com'',
           r_department = ''Eng''\<rparr>)
     = Inr \<lparr>employee_id = ''E1'', full_name = ''Alice'', email = ''a@x.com'', department = ''Eng'',
            emp_oid = 0\<rparr>"
    by (simp add: post_employees_def v1) (simp add: eval_defs)
  have v2: "EmployeeCreate_validate example_EmailStr
          \<lparr>r_employee_id = padded_id, r_full_name = ''Alice'', r_email = ''a@x.com'',
           r_department = ''Eng''\<rparr> = Inl ValidationError"
    by (simp add: EmployeeCreate_validate_def checked_str_def str_field_def padded_id_facts)
  have b: "fst (post_employees example_EmailStr d
          \<lparr>r_employee_id = padded_id, r_full_name = ''Alice'', r_email = ''a@x.com'',
           r_department = ''Eng''\<rparr>) = Inl ValidationError" for d
    by (simp add: post_employees_def v2)
  from a b padded_id_facts(2) show ?thesis
    by (simp add: is_ConflictError_def)
qed

section \<open>Listing attendance: filters, range and order\<close>

text \<open>
  C7. A filter counts as given when its parameter is present and not the empty string.
  When the given date bounds parse, listing attendance succeeds, and its result holds
  exactly the stored records (each once, as many times as stored) whose \<open>employee_id\<close>
  equals the given one and whose date is at or after the given \<open>date_from\<close> and at or
  before the given \<open>date_to\<close>; the result is ordered by date, latest first; and when
  \<open>date_from\<close> is after \<open>date_to\<close> the result is the empty list.
\<close>

theorem get_attendance_filters:
  assumes "parse_bound date_from = Inr lo" and "parse_bound date_to = Inr hi"
  shows "\<exists>rs. get_attendance db emp_id date_from date_to = Inr rs
           \<and> mset (map stored_doc rs) =
               mset (filter (\<lambda>d. (\<forall>e. given emp_id = Some e \<longrightarrow> att_employee_id d = e)
                                  \<and> (\<forall>l. lo = Some l \<longrightarrow> l \<le> att_date d)
                                  \<and> (\<forall>h. hi = Some h \<longrightarrow> att_date d \<le> h))
                       (attendance db))
           \<and> sorted_wrt (\<lambda>a b. att_date b \<le> att_date a) rs
           \<and> (\<forall>l h. lo = Some l \<and> hi = Some h \<and> h < l \<longrightarrow> rs = [])"
proof -
  let ?q = "\<lparr>q_employee_id = given emp_id, q_gte = lo, q_lte = hi\<rparr>"
  let ?ds = "sort_date_desc (filter (matches ?q) (attendance db))"
  let ?rs = "map (resolve_name db) ?ds"
  have r: "get_attendance db emp_id date_from date_to = Inr ?rs"
    by (rule get_attendance_ok [OF assms])
  have docs: "map stored_doc ?rs = ?ds"
    by (simp add: o_def stored_doc_resolve_name)
  have m: "mset (map stored_doc ?rs) =
             mset (filter (\<lambda>d. (\<forall>e. given emp_id = Some e \<longrightarrow> att_employee_id d = e)
                                  \<and> (\<forall>l. lo = Some l \<longrightarrow> l \<le> att_date d)
                                  \<and> (\<forall>h. hi = Some h \<longrightarrow> att_date d \<le> h))
                       (attendance db))"
    unfolding docs mset_sort_date_desc by (simp add: matches_iff)
  have "sorted_wrt (\<lambda>a b. att_date b \<le> att_date a) ?ds"
    by (rule sorted_sort_date_desc)
  then have s: "sorted_wrt (\<lambda>a b. att_date b \<le> att_date a) ?rs"
    by (simp add: sorted_wrt_map resolve_name_def with_employee_name_def)
  have e: "?rs = []" if "lo = Some l" "hi = Some h" "h < l" for l h
  proof -
    have "\<not> matches ?q d" for d
      using that by (auto simp: matches_iff)
    then have "filter (matches ?q) (attendance db) = []"
      by (simp add: filter_empty_conv)
    then show ?thesis by (simp add: sort_date_desc_def)
  qed
  from r m s e show ?thesis by blast
qed

theorem get_attendance_filters_witness:
  "parse_bound (Some ''2024-01-01'') = Inr (Some (2024, 1, 1))
   \<and> parse_bound (Some ''2024-01-02'') = Inr (Some (2024, 1, 2))
   \<and> (\<exists>rs. get_attendance example_db (Some ''E1'') (Some ''2024-01-01'') (Some ''2024-01-02'') = Inr rs
         \<and> mset (map stored_doc rs) =
             {#\<lparr>att_oid = 1, att_employee_id = ''E1'', att_date = (2024, 1, 1), att_status = ''Absent''\<rparr>#}
         \<and> sorted_wrt (\<lambda>a b. att_date b \<le> att_date a) rs)
   \<and> get_attendance example_db None (Some ''2024-01-01'') None =
       Inr [\<lparr>att_oid = 4, att_employee_id = ''E1'', att_date = (2024, 1, 3), att_status = ''Present'',
             employee_name = Some ''Alice''\<rparr>,
            \<lparr>att_oid = 3, att_employee_id = ''E2'', att_date = (2024, 1, 2), att_status = ''Present'',
             employee_name = Some ''Bob''\<rparr>,
            \<lparr>att_oid = 1, att_employee_id = ''E1'', att_date = (2024, 1, 1), att_status = ''Absent'',
             employee_name = Some ''Alice''\<rparr>]
   \<and> get_attendance example_db None (Some ''2024-01-03'') (Some ''2024-01-01'') = Inr []"
proof -
  note h = parse_bound_examples
  from get_attendance_filters [OF h(2) h(3), of example_db "Some ''E1''"]
  have a: "\<exists>rs. get_attendance example_db (Some ''E1'') (Some ''2024-01-01'') (Some ''2024-01-02'') = Inr rs
         \<and> mset (map stored_doc rs) =
             {#\<lparr>att_oid = 1, att_employee_id = ''E1'', att_date = (2024, 1, 1), att_status = ''Absent''\<rparr>#}
         \<and> sorted_wrt (\<lambda>a b. att_date b \<le> att_date a) rs"
    by (simp add: example_db_eq given_def)
  from get_attendance_filters [OF h(4) h(2), of example_db None]
  have b: "get_attendance example_db None (Some ''2024-01-03'') (Some ''2024-01-01'') = Inr []"
    by auto
  have c: "get_attendance example_db None (Some ''2024-01-01'') None =
       Inr [\<lparr>att_oid = 4, att_employee_id = ''E1'', att_date = (2024, 1, 3), att_status = ''Present'',
             employee_name = Some ''Alice''\<rparr>,
            \<lparr>att_oid = 3, att_employee_id = ''E2'', att_date = (2024, 1, 2), att_status = ''Present'',
             employee_name = Some ''Bob''\<rparr>,
            \<lparr>att_oid = 1, att_employee_id = ''E1'', att_date = (2024, 1, 1), att_status = ''Absent'',
             employee_name = Some ''Alice''\<rparr>]"
    by (simp add: get_attendance_ok [OF h(2) h(1)] example_db_eq given_def matches_def
          sort_date_desc_def resolve_name_def with_employee_name_def)
  from h a b c show ?thesis by simp
qed

section \<open>Listing attendance: the employee's name\<close>

text \<open>
  C9. When the given date bounds parse, listing attendance succeeds; every record of the
  result carries the \<open>full_name\<close> of the first stored employee with the record's
  \<open>employee_id\<close>, looked up in the store as it is, or no name when there is none; and a
  stored record that satisfies the filters and whose employee is not in the store is in
  the result, with no name.
\<close>

theorem get_attendance_employee_name:
  assumes "parse_bound date_from = Inr lo" and "parse_bound date_to = Inr hi"
  shows "\<exists>rs. get_attendance db emp_id date_from date_to = Inr rs
           \<and> list_all (\<lambda>r. employee_name r =
                   map_option full_name
                     (find (\<lambda>e. employee_id e = att_employee_id r) (employees db))) rs
           \<and> (\<forall>d. d \<in> set (attendance db)
                 \<and> matches \<lparr>q_employee_id = given emp_id, q_gte = lo, q_lte = hi\<rparr> d
                 \<and> find (\<lambda>e. employee_id e = att_employee_id d) (employees db) = None \<longrightarrow>
                 with_employee_name d None \<in> set rs)"
proof -
  let ?q = "\<lparr>q_employee_id = given emp_id, q_gte = lo, q_lte = hi\<rparr>"
  let ?ds = "sort_date_desc (filter (matches ?q) (attendance db))"
  let ?rs = "map (resolve_name db) ?ds"
  have r: "get_attendance db emp_id date_from date_to = Inr ?rs"
    by (rule get_attendance_ok [OF assms])
  have n: "list_all (\<lambda>r. employee_name r =
                   map_option full_name
                     (find (\<lambda>e. employee_id e = att_employee_id r) (employees db))) ?rs"
    by (simp add: list_all_iff resolve_name_def with_employee_name_def)
  have sds: "set ?ds = {d \<in> set (attendance db). matches ?q d}"
    using mset_sort_date_desc [of "filter (matches ?q) (attendance db)"]
    by (metis set_filter set_mset_mset)
  have o: "with_employee_name d None \<in> set ?rs"
    if "d \<in> set (attendance db)" "matches ?q d"
      "find (\<lambda>e. employee_id e = att_employee_id d) (employees db) = None" for d
  proof -
    from that have "d \<in> set ?ds" by (simp add: sds)
    then have "resolve_name db d \<in> set ?rs" by simp
    with that show ?thesis by (simp add: resolve_name_def)
  qed
  from r n o show ?thesis by blast
qed

theorem get_attendance_employee_name_witness:
  "parse_bound None = Inr None
   \<and> find (\<lambda>e. employee_id e = ''E1'') (employees orphan_db) = None
   \<and> get_attendance orphan_db None None None =
       Inr [\<lparr>att_oid = 3, att_employee_id = ''E2'', att_date = (2024, 1, 2), att_status = ''Present'',
             employee_name = Some ''Bob''\<rparr>,
            \<lparr>att_oid = 1, att_employee_id = ''E1'', att_date = (2024, 1, 1), att_status = ''Absent'',
             employee_name = None\<rparr>]
   \<and> (\<exists>rs. get_attendance orphan_db None None None = Inr rs
         \<and> list_all (\<lambda>r. employee_name r =
                 map_option full_name
                   (find (\<lambda>e. employee_id e = att_employee_id r) (employees orphan_db))) rs
         \<and> \<lparr>att_oid = 1, att_employee_id = ''E1'', att_date = (2024, 1, 1), att_status = ''Absent'',
             employee_name = None\<rparr> \<in> set rs)"
proof -
  note h = parse_bound_examples(1)
  have f: "find (\<lambda>e. employee_id e = ''E1'') (employees orphan_db) = None"
    by (simp add: orphan_db_def)
  have c: "get_attendance orphan_db None None None =
       Inr [\<lparr>att_oid = 3, att_employee_id = ''E2'', att_date = (2024, 1, 2), att_status = ''Present'',
             employee_name = Some ''Bob''\<rparr>,
            \<lparr>att_oid = 1, att_employee_id = ''E1'', att_date = (2024, 1, 1), att_status = ''Absent'',
             employee_name = None\<rparr>]"
    by (simp add: get_attendance_ok [OF h h] orphan_db_def given_def matches_def
          sort_date_desc_def resolve_name_def with_employee_name_def)
  from get_attendance_employee_name [OF h h, of orphan_db None]
  obtain rs where r: "get_attendance orphan_db None None None = Inr rs"
    and n: "list_all (\<lambda>r. employee_name r =
                 map_option full_name
                   (find (\<lambda>e. employee_id e = att_employee_id r) (employees orphan_db))) rs"
    and o: "\<forall>d. d \<in> set (attendance orphan_db)
                 \<and> matches \<lparr>q_employee_id = given None, q_gte = None, q_lte = None\<rparr> d
                 \<and> find (\<lambda>e. employee_id e = att_employee_id d) (employees orphan_db) = None \<longrightarrow>
                 with_employee_name d None \<in> set rs"
    by blast
  from o [rule_format, of "\<lparr>att_oid = 1, att_employee_id = ''E1'', att_date = (2024, 1, 1), att_status = ''Absent''\<rparr>"]
  have "\<lparr>att_oid = 1, att_employee_id = ''E1'', att_date = (2024, 1, 1), att_status = ''Absent'',
             employee_name = None\<rparr> \<in> set rs"
    by (simp add: orphan_db_def matches_def given_def with_employee_name_def)
  with r n h f c show ?thesis by blast
qed

section \<open>Listing attendance: malformed date strings\<close>

text \<open>
  C6. A malformed \<open>date_from\<close> or \<open>date_to\<close> should end in the validation error (status
  422). The handler parses the strings itself with \<^verbatim>\<open>strptime\<close> and catches nothing:
  for \<^verbatim>\<open>2024-13-45\<close> as \<open>date_from\<close>, and for \<^verbatim>\<open>yesterday\<close> as \<open>date_to\<close>,
  the request ends with \<open>ValueError\<close>, which is status 500 and not the validation error,
  whatever the store and the other parameters. The empty string is not parsed at all: the
  request succeeds as if the bound were absent.
\<close>

theorem get_attendance_malformed_date:
  "get_attendance db emp_id (Some ''2024-13-45'') date_to = Inl ValueError
   \<and> get_attendance db emp_id None (Some ''yesterday'') = Inl ValueError
   \<and> http_status ValueError = 500
   \<and> ValueError \<noteq> ValidationError
   \<and> get_attendance db0 None (Some '''') None = Inr []"
  by (simp add: get_attendance_def parse_bound_def given_def strptime_defs http_status_def
        db0_def sort_date_desc_def)

section \<open>Statistics per employee\<close>

text \<open>
  C3. The statistics list has one entry per stored employee, in the order of the employees:
  the entry carries the employee's \<open>employee_id\<close> and \<open>full_name\<close>, \<open>total_present\<close> is
  the number of stored attendance records of that \<open>employee_id\<close> with status
  \<^verbatim>\<open>Present\<close>, \<open>total_absent\<close> the number with status \<^verbatim>\<open>Absent\<close>, and \<open>total_days\<close> the
  number of all its records. Where every stored status is one of the two (as in every store
  that requests produce from the empty store), \<open>total_days\<close> is the sum of the other two.
  An employee without attendance records has the entry with three zeros.
\<close>

theorem attendance_stats_per_employee:
  "get_attendance_stats db =
     map (\<lambda>e. \<lparr>stat_employee_id = employee_id e,
                stat_employee_name = full_name e,
                total_present =
                  length (filter (\<lambda>d. att_employee_id d = employee_id e \<and> att_status d = ''Present'')
                            (attendance db)),
                total_absent =
                  length (filter (\<lambda>d. att_employee_id d = employee_id e \<and> att_status d = ''Absent'')
                            (attendance db)),
                total_days =
                  length (filter (\<lambda>d. att_employee_id d = employee_id e) (attendance db))\<rparr>)
       (employees db)
   \<and> (list_all (\<lambda>d. att_status d = ''Present'' \<or> att_status d = ''Absent'') (attendance db) \<longrightarrow>
        list_all (\<lambda>st. total_days st = total_present st + total_absent st)
          (get_attendance_stats db))
   \<and> list_all (\<lambda>st. total_days st = total_present st + total_absent st)
        (get_attendance_stats (run reqs))
   \<and> (\<forall>e. e \<in> set (employees db)
         \<and> filter (\<lambda>d. att_employee_id d = employee_id e) (attendance db) = [] \<longrightarrow>
         \<lparr>stat_employee_id = employee_id e, stat_employee_name = full_name e,
          total_present = 0, total_absent = 0, total_days = 0\<rparr> \<in> set (get_attendance_stats db))"
proof (intro conjI)
  show "get_attendance_stats db =
     map (\<lambda>e. \<lparr>stat_employee_id = employee_id e,
                stat_employee_name = full_name e,
                total_present =
                  length (filter (\<lambda>d. att_employee_id d = employee_id e \<and> att_status d = ''Present'')
                            (attendance db)),
                total_absent =
                  length (filter (\<lambda>d. att_employee_id d = employee_id e \<and> att_status d = ''Absent'')
                            (attendance db)),
                total_days =
                  length (filter (\<lambda>d. att_employee_id d = employee_id e) (attendance db))\<rparr>)
       (employees db)"
    by (rule get_attendance_stats_eq)
next
  have days: "list_all (\<lambda>st. total_days st = total_present st + total_absent st)
          (get_attendance_stats s)"
    if "list_all (\<lambda>d. att_status d = ''Present'' \<or> att_status d = ''Absent'') (attendance s)" for s
    using count_present_absent [OF that]
    by (simp add: get_attendance_stats_eq list_all_iff)
  then show "list_all (\<lambda>d. att_status d = ''Present'' \<or> att_status d = ''Absent'') (attendance db) \<longrightarrow>
        list_all (\<lambda>st. total_days st = total_present st + total_absent st)
          (get_attendance_stats db)"
    by blast
  from store_inv_run [of reqs]
  have "list_all (\<lambda>d. att_status d = ''Present'' \<or> att_status d = ''Absent'') (attendance (run reqs))"
    by (simp add: store_inv_def)
  then show "list_all (\<lambda>st. total_days st = total_present st + total_absent st)
        (get_attendance_stats (run reqs))"
    by (rule days)
next
  show "\<forall>e. e \<in> set (employees db)
         \<and> filter (\<lambda>d. att_employee_id d = employee_id e) (attendance db) = [] \<longrightarrow>
         \<lparr>stat_employee_id = employee_id e, stat_employee_name = full_name e,
          total_present = 0, total_absent = 0, total_days = 0\<rparr> \<in> set (get_attendance_stats db)"
  proof (intro allI impI, elim conjE)
    fix e
    assume e: "e \<in> set (employees db)"
      and none: "filter (\<lambda>d. att_employee_id d = employee_id e) (attendance db) = []"
    from none have "\<forall>d\<in>set (attendance db). att_employee_id d \<noteq> employee_id e"
      by (simp add: filter_empty_conv)
    then have "filter (\<lambda>d. att_employee_id d = employee_id e \<and> att_status d = v) (attendance db) = []" for v
      by (simp add: filter_empty_conv)
    with none e show "\<lparr>stat_employee_id = employee_id e, stat_employee_name = full_name e,
          total_present = 0, total_absent = 0, total_days = 0\<rparr> \<in> set (get_attendance_stats db)"
      by (force simp: get_attendance_stats_eq image_iff)
  qed
qed

theorem attendance_stats_per_employee_witness:
  "list_all (\<lambda>d. att_status d = ''Present'' \<or> att_status d = ''Absent'') (attendance stats_db)
   \<and> \<lparr>employee_id = ''E2'', full_name = ''Bob'', email = ''b@x.com'', department = ''Ops'',
       emp_oid = 6\<rparr> \<in> set (employees stats_db)
   \<and> filter (\<lambda>d. att_employee_id d = ''E2'') (attendance stats_db) = []
   \<and> get_attendance_stats stats_db =
       [\<lparr>stat_employee_id = ''E1'', stat_employee_name = ''Alice'',
         total_present = 3, total_absent = 2, total_days = 5\<rparr>,
        \<lparr>stat_employee_id = ''E2'', stat_employee_name = ''Bob'',
         total_present = 0, total_absent = 0, total_days = 0\<rparr>]
   \<and> list_all (\<lambda>st. total_days st = total_present st + total_absent st)
        (get_attendance_stats stats_db)
   \<and> \<lparr>stat_employee_id = ''E2'', stat_employee_name = ''Bob'',
       total_present = 0, total_absent = 0, total_days = 0\<rparr> \<in> set (get_attendance_stats stats_db)"
proof -
  let ?bob = "\<lparr>employee_id = ''E2'', full_name = ''Bob'', email = ''b@x.com'', department = ''Ops'',
       emp_oid = 6\<rparr>"
  have h1: "list_all (\<lambda>d. att_status d = ''Present'' \<or> att_status d = ''Absent'') (attendance stats_db)"
    by (simp add: stats_db_eq)
  have h2: "?bob \<in> set (employees stats_db)"
    by (simp add: stats_db_eq)
  have h3: "filter (\<lambda>d. att_employee_id d = employee_id ?bob) (attendance stats_db) = []"
    by (simp add: stats_db_eq)
  note t = attendance_stats_per_employee [of stats_db "[]"]
  from t have a: "get_attendance_stats stats_db =
       [\<lparr>stat_employee_id = ''E1'', stat_employee_name = ''Alice'',
         total_present = 3, total_absent = 2, total_days = 5\<rparr>,
        \<lparr>stat_employee_id = ''E2'', stat_employee_name = ''Bob'',
         total_present = 0, total_absent = 0, total_days = 0\<rparr>]"
    by (simp add: stats_db_eq)
  from t h1 have b: "list_all (\<lambda>st. total_days st = total_present st + total_absent st)
        (get_attendance_stats stats_db)"
    by blast
  from t h2 h3 have c: "\<lparr>stat_employee_id = employee_id ?bob, stat_employee_name = full_name ?bob,
       total_present = 0, total_absent = 0, total_days = 0\<rparr> \<in> set (get_attendance_stats stats_db)"
    by blast
  from h1 h2 h3 a b c show ?thesis by simp
qed

section \<open>Statistics of the two backends\<close>

text \<open>
  C4. When the document store and the tables hold the same employees and the same
  attendance records (as multisets of their contents, the storage-assigned identifiers
  apart, a status string being the value of the status member), the statistics handler of
  the document-store backend and the one of the relational backend return the same
  multiset of entries.
\<close>

theorem attendance_stats_backends_agree:
  assumes emps: "mset (map employee_content (employees m)) = mset (map row_content (employees_table q))"
    and atts: "mset (map attendance_content (attendance m)) = mset (map arow_content (attendance_table q))"
  shows "mset (get_attendance_stats m) = mset (get_attendance_stats_sql q)"
proof -
  let ?A = "mset (map attendance_content (attendance m))"
  have "mset (get_attendance_stats m) =
          image_mset (stats_of_content ?A) (mset (map employee_content (employees m)))"
    by (simp add: get_attendance_stats_content multiset.map_comp o_def)
  also have "\<dots> = image_mset (stats_of_content ?A) (mset (map row_content (employees_table q)))"
    by (simp only: emps)
  also have "\<dots> = mset (get_attendance_stats_sql q)"
    unfolding atts by (simp add: get_attendance_stats_sql_content multiset.map_comp o_def)
  finally show ?thesis .
qed

theorem attendance_stats_backends_agree_witness:
  "mset (map employee_content (employees example_db)) = mset (map row_content (employees_table example_tables))
   \<and> mset (map attendance_content (attendance example_db))
       = mset (map arow_content (attendance_table example_tables))
   \<and> mset (get_attendance_stats example_db) = mset (get_attendance_stats_sql example_tables)
   \<and> get_attendance_stats example_db =
       [\<lparr>stat_employee_id = ''E1'', stat_employee_name = ''Alice'',
         total_present = 1, total_absent = 1, total_days = 2\<rparr>,
        \<lparr>stat_employee_id = ''E2'', stat_employee_name = ''Bob'',
         total_present = 1, total_absent = 0, total_days = 1\<rparr>]
   \<and> get_attendance_stats_sql example_tables =
       [\<lparr>stat_employee_id = ''E2'', stat_employee_name = ''Bob'',
         total_present = 1, total_absent = 0, total_days = 1\<rparr>,
        \<lparr>stat_employee_id = ''E1'', stat_employee_name = ''Alice'',
         total_present = 1, total_absent = 1, total_days = 2\<rparr>]"
proof -
  have h1: "mset (map employee_content (employees example_db))
            = mset (map row_content (employees_table example_tables))"
    by (simp add: example_db_eq example_tables_def employee_content_def row_content_def)
  have h2: "mset (map attendance_content (attendance example_db))
            = mset (map arow_content (attendance_table example_tables))"
    by (simp add: example_db_eq example_tables_def attendance_content_def arow_content_def
          status_value_def)
  have a: "get_attendance_stats example_db =
       [\<lparr>stat_employee_id = ''E1'', stat_employee_name = ''Alice'',
         total_present = 1, total_absent = 1, total_days = 2\<rparr>,
        \<lparr>stat_employee_id = ''E2'', stat_employee_name = ''Bob'',
         total_present = 1, total_absent = 0, total_days = 1\<rparr>]"
    by (simp add: get_attendance_stats_eq example_db_eq)
  have b: "get_attendance_stats_sql example_tables =
       [\<lparr>stat_employee_id = ''E2'', stat_employee_name = ''Bob'',
         total_present = 1, total_absent = 0, total_days = 1\<rparr>,
        \<lparr>stat_employee_id = ''E1'', stat_employee_name = ''Alice'',
         total_present = 1, total_absent = 1, total_days = 2\<rparr>]"
    by (simp add: get_attendance_stats_sql_def example_tables_def)
  from h1 h2 a b attendance_stats_backends_agree [OF h1 h2] show ?thesis by simp
qed

end
